theory Spec2Isabelle
  imports Main "HOL-Library.Multiset"
begin

section \<open>Python values\<close>

text \<open>
  Python \<open>bytes\<close> and Python \<open>str\<close> are both character lists; a \<open>str\<close> is read as a
  sequence of code points below 256. The documents handled by the stores are JSON values:
  objects are association lists in insertion order (the order of a Python \<open>dict\<close>);
  floating-point numbers do not occur in the documents of this repository and are left out.
\<close>

type_synonym bytes = "char list"

datatype json =
    JNull
  | JBool bool
  | JInt int
  | JString string
  | JArray "json list"
  | JObject "(string \<times> json) list"

datatype error =
    ValueError string
  | KeyError string
  | TypeError
  | AttributeError
  | JSONDecodeError
  | RecursionError
  | UnicodeDecodeError
  | BinasciiError

text \<open>Truth value of a Python object, as tested by \<open>if x\<close> and \<open>not x\<close>.\<close>

fun py_truthy :: "json \<Rightarrow> bool" where
  "py_truthy JNull = False"
| "py_truthy (JBool b) = b"
| "py_truthy (JInt n) = (n \<noteq> 0)"
| "py_truthy (JString s) = (s \<noteq> [])"
| "py_truthy (JArray xs) = (xs \<noteq> [])"
| "py_truthy (JObject kvs) = (kvs \<noteq> [])"

text \<open>\<open>v[k]\<close> with a string key: only a dict supports it; a missing key is a KeyError.\<close>

fun py_getitem :: "json \<Rightarrow> string \<Rightarrow> error + json" where
  "py_getitem (JObject kvs) k =
     (case map_of kvs k of None \<Rightarrow> Inl (KeyError k) | Some v \<Rightarrow> Inr v)"
| "py_getitem _ k = Inl TypeError"

text \<open>\<open>v.get(k, d)\<close>: only a dict has the method.\<close>

fun py_get :: "json \<Rightarrow> string \<Rightarrow> json \<Rightarrow> error + json" where
  "py_get (JObject kvs) k d = Inr (case map_of kvs k of None \<Rightarrow> d | Some v \<Rightarrow> v)"
| "py_get _ k d = Inl AttributeError"

text \<open>\<open>list(v)\<close>: the elements of a list, the keys of a dict, the characters of a string.\<close>

fun py_list :: "json \<Rightarrow> error + json list" where
  "py_list (JArray xs) = Inr xs"
| "py_list (JObject kvs) = Inr (map (\<lambda>kv. JString (fst kv)) kvs)"
| "py_list (JString s) = Inr (map (\<lambda>c. JString [c]) s)"
| "py_list _ = Inl TypeError"

text \<open>\<open>str.isspace\<close>, \<open>str.strip()\<close> and \<open>str.lower()\<close> on code points below 256.\<close>

definition py_isspace :: "char \<Rightarrow> bool" where
  "py_isspace c = (of_char c \<in> {9, 10, 11, 12, 13, 28, 29, 30, 31, 32, 133, 160 :: nat})"

definition py_strip :: "string \<Rightarrow> string" where
  "py_strip s = rev (dropWhile py_isspace (rev (dropWhile py_isspace s)))"

definition py_lower_char :: "char \<Rightarrow> char" where
  "py_lower_char c =
     (let n = (of_char c :: nat)
      in if (65 \<le> n \<and> n \<le> 90) \<or> (192 \<le> n \<and> n \<le> 214) \<or> (216 \<le> n \<and> n \<le> 222)
         then char_of (n + 32) else c)"

definition py_lower :: "string \<Rightarrow> string" where
  "py_lower s = map py_lower_char s"

definition is_ascii :: "string \<Rightarrow> bool" where
  "is_ascii s = list_all (\<lambda>c. (of_char c :: nat) < 128) s"

section \<open>Python values that are not JSON\<close>

text \<open>
  \<open>write\<close> takes any Python value. Besides the JSON values these are tuples, dicts with
  keys that are not strings, and objects of other classes, given here by their \<open>str()\<close>.
\<close>

datatype pyvalue =
    PNone
  | PBool bool
  | PInt int
  | PStr string
  | PList "pyvalue list"
  | PTuple "pyvalue list"
  | PDict "(pyvalue \<times> pyvalue) list"
  | PObject string

text \<open>\<open>str(i)\<close> for an integer.\<close>

fun digits_of :: "nat \<Rightarrow> string" where
  "digits_of n =
     (if n < 10 then [char_of (48 + n)] else digits_of (n div 10) @ [char_of (48 + n mod 10)])"

definition py_str_int :: "int \<Rightarrow> string" where
  "py_str_int i = (if i < 0 then CHR ''-'' # digits_of (nat (- i)) else digits_of (nat i))"

text \<open>
  What \<open>json.dumps(value, default=str)\<close> serialises: a tuple as an array, a dict key that
  is an integer, a boolean or \<open>None\<close> as a string (any other key that is not a string is
  a TypeError), and an object of another class as the string \<open>str\<close> returns for it.
\<close>

fun key_to_string :: "pyvalue \<Rightarrow> error + string" where
  "key_to_string (PStr s) = Inr s"
| "key_to_string (PBool b) = Inr (if b then ''true'' else ''false'')"
| "key_to_string (PInt i) = Inr (py_str_int i)"
| "key_to_string PNone = Inr ''null''"
| "key_to_string _ = Inl TypeError"

fun py_to_json :: "pyvalue \<Rightarrow> error + json"
  and to_json_list :: "pyvalue list \<Rightarrow> error + json list"
  and to_json_items :: "(pyvalue \<times> pyvalue) list \<Rightarrow> error + (string \<times> json) list" where
  "py_to_json PNone = Inr JNull"
| "py_to_json (PBool b) = Inr (JBool b)"
| "py_to_json (PInt i) = Inr (JInt i)"
| "py_to_json (PStr s) = Inr (JString s)"
| "py_to_json (PList xs) = (case to_json_list xs of Inl e \<Rightarrow> Inl e | Inr js \<Rightarrow> Inr (JArray js))"
| "py_to_json (PTuple xs) = (case to_json_list xs of Inl e \<Rightarrow> Inl e | Inr js \<Rightarrow> Inr (JArray js))"
| "py_to_json (PDict kvs) = (case to_json_items kvs of Inl e \<Rightarrow> Inl e | Inr fs \<Rightarrow> Inr (JObject fs))"
| "py_to_json (PObject s) = Inr (JString s)"
| "to_json_list [] = Inr []"
| "to_json_list (x # xs) =
     (case py_to_json x of
        Inl e \<Rightarrow> Inl e
      | Inr j \<Rightarrow> (case to_json_list xs of Inl e \<Rightarrow> Inl e | Inr js \<Rightarrow> Inr (j # js)))"
| "to_json_items [] = Inr []"
| "to_json_items ((k, v) # kvs) =
     (case key_to_string k of
        Inl e \<Rightarrow> Inl e
      | Inr s \<Rightarrow>
         (case py_to_json v of
            Inl e \<Rightarrow> Inl e
          | Inr j \<Rightarrow> (case to_json_items kvs of Inl e \<Rightarrow> Inl e | Inr fs \<Rightarrow> Inr ((s, j) # fs))))"

text \<open>A JSON value, as \<open>json.loads\<close> returns it, among the Python values.\<close>

fun of_json :: "json \<Rightarrow> pyvalue"
  and of_json_list :: "json list \<Rightarrow> pyvalue list"
  and of_json_fields :: "(string \<times> json) list \<Rightarrow> (pyvalue \<times> pyvalue) list" where
  "of_json JNull = PNone"
| "of_json (JBool b) = PBool b"
| "of_json (JInt i) = PInt i"
| "of_json (JString s) = PStr s"
| "of_json (JArray js) = PList (of_json_list js)"
| "of_json (JObject fs) = PDict (of_json_fields fs)"
| "of_json_list [] = []"
| "of_json_list (j # js) = of_json j # of_json_list js"
| "of_json_fields [] = []"
| "of_json_fields ((k, j) # fs) = (PStr k, of_json j) # of_json_fields fs"

section \<open>The operating system's random source\<close>

text \<open>
  The random bytes the process will draw are a stream; drawing \<open>n\<close> bytes returns the
  next \<open>n\<close> and advances the stream. \<open>os.urandom\<close> and \<open>secrets.token_bytes\<close> both
  read it.
\<close>

type_synonym entropy = "nat \<Rightarrow> char"

definition os_urandom :: "nat \<Rightarrow> entropy \<Rightarrow> bytes \<times> entropy" where
  "os_urandom n e = (map e [0..<n], \<lambda>i. e (n + i))"

section \<open>Library functions and the cipher\<close>

text \<open>
  The functions of the Python standard library that the stores call, and the two
  functions of the module \<open>core.crypto\<close>, whose source is not part of the files under
  study, are parameters of the model. A failure (\<open>None\<close>, \<open>Inl\<close>) is an exception of the
  call. \<open>aes256_encrypt\<close> draws its IV from the random source.
\<close>

record pylib =
  utf8_encode :: "string \<Rightarrow> bytes"
  utf8_decode :: "bytes \<Rightarrow> string option"
  json_loads :: "string \<Rightarrow> error + json"
  json_dumps :: "json \<Rightarrow> string"
  b64encode :: "bytes \<Rightarrow> string"
  b64decode :: "string \<Rightarrow> bytes option"
  aes256_encrypt :: "bytes \<Rightarrow> bytes \<Rightarrow> entropy \<Rightarrow> (bytes \<times> bytes) \<times> entropy"
  aes256_decrypt :: "bytes \<Rightarrow> bytes \<Rightarrow> bytes \<Rightarrow> bytes option"
  sha256_hexdigest :: "bytes \<Rightarrow> string"
  uuid4_hex :: "entropy \<Rightarrow> string \<times> entropy"

text \<open>\<open>base64.b64decode(v)\<close> on a JSON value: anything but a string is a TypeError.\<close>

fun py_b64decode :: "pylib \<Rightarrow> json \<Rightarrow> error + bytes" where
  "py_b64decode L (JString s) =
     (case b64decode L s of None \<Rightarrow> Inl BinasciiError | Some b \<Rightarrow> Inr b)"
| "py_b64decode L _ = Inl TypeError"

section \<open>secure\_store.py\<close>

subsection \<open>SecretKeyManager\<close>

record key_manager =
  key_file :: "bytes option"
  km_entropy :: entropy

text \<open>The length check on the bytes read back from the key file.\<close>

definition check_key :: "bytes \<Rightarrow> key_manager \<Rightarrow> (error + bytes) \<times> key_manager" where
  "check_key key km =
     (if length key \<noteq> 32
      then (Inl (ValueError ''Key must be exactly 32 bytes.''), km)
      else (Inr key, km))"

text \<open>
  A missing key file is written first, with 32 bytes of the random source; the bytes
  read back are the ones just written.
\<close>

definition load_key :: "key_manager \<Rightarrow> (error + bytes) \<times> key_manager" where
  "load_key km =
     (case key_file km of
        None \<Rightarrow>
          (let (b, e) = os_urandom 32 (km_entropy km)
           in check_key b (km\<lparr>key_file := Some b, km_entropy := e\<rparr>))
      | Some key \<Rightarrow> check_key key km)"

subsection \<open>EncryptedJsonStore\<close>

text \<open>
  The method \<open>write\<close> is \<open>store_write\<close> (on a JSON value) and \<open>write_value\<close> (on any
  Python value) here: \<open>write\<close> is a command word of Isabelle.
\<close>

record store =
  skey :: bytes
  sfile :: "bytes option"
  entropy :: entropy

definition store_write :: "pylib \<Rightarrow> json \<Rightarrow> store \<Rightarrow> store" where
  "store_write L v st =
     (let payload = json_dumps L v;
          ((iv, ciphertext), e) = aes256_encrypt L (utf8_encode L payload) (skey st) (entropy st);
          envelope = JObject [(''iv'', JString (b64encode L iv)),
                              (''ciphertext'', JString (b64encode L ciphertext))]
      in st\<lparr>sfile := Some (utf8_encode L (json_dumps L envelope)), entropy := e\<rparr>)"

text \<open>
  The body of the \<open>try\<close> block of \<open>read\<close>; \<open>except Exception\<close> catches every failure in
  it, so all of them are the one value \<open>None\<close>.
\<close>

definition read_encrypted :: "pylib \<Rightarrow> bytes \<Rightarrow> string \<Rightarrow> json option" where
  "read_encrypted L k raw =
     (case json_loads L raw of Inl _ \<Rightarrow> None | Inr envelope \<Rightarrow>
      (case py_getitem envelope ''iv'' of Inl _ \<Rightarrow> None | Inr iv_b64 \<Rightarrow>
       (case py_getitem envelope ''ciphertext'' of Inl _ \<Rightarrow> None | Inr ciphertext_b64 \<Rightarrow>
        (case py_b64decode L iv_b64 of Inl _ \<Rightarrow> None | Inr iv \<Rightarrow>
         (case py_b64decode L ciphertext_b64 of Inl _ \<Rightarrow> None | Inr ciphertext \<Rightarrow>
          (case aes256_decrypt L iv ciphertext k of None \<Rightarrow> None | Some pt \<Rightarrow>
           (case utf8_decode L pt of None \<Rightarrow> None | Some plaintext \<Rightarrow>
            (case json_loads L plaintext of Inl _ \<Rightarrow> None | Inr doc \<Rightarrow> Some doc))))))))"

definition read :: "pylib \<Rightarrow> json \<Rightarrow> store \<Rightarrow> (error + json) \<times> store" where
  "read L dflt st =
     (case sfile st of
        None \<Rightarrow> (Inr dflt, st)
      | Some content \<Rightarrow>
          (case utf8_decode L content of
             None \<Rightarrow> (Inl UnicodeDecodeError, st)
           | Some raw \<Rightarrow>
               if py_strip raw = [] then (Inr dflt, st)
               else (case read_encrypted L (skey st) raw of
                       Some doc \<Rightarrow> (Inr doc, st)
                     | None \<Rightarrow>
                         (case json_loads L raw of
                            Inl e \<Rightarrow> if e = JSONDecodeError then (Inr dflt, st) else (Inl e, st)
                          | Inr legacy \<Rightarrow> (Inr legacy, store_write L legacy st)))))"

text \<open>
  \<open>write\<close> on any Python value: \<open>json.dumps\<close> serialises the JSON image of the value,
  and \<open>store_write\<close> is the rest of the method. The values \<open>read\<close> passes to \<open>write\<close>
  come from \<open>json.loads\<close> and are JSON values already.
\<close>

definition write_value :: "pylib \<Rightarrow> pyvalue \<Rightarrow> store \<Rightarrow> error option \<times> store" where
  "write_value L v st =
     (case py_to_json v of
        Inl e \<Rightarrow> (Some e, st)
      | Inr j \<Rightarrow> (None, store_write L j st))"

section \<open>user\_store.py\<close>

text \<open>
  \<open>EncryptedUserStore\<close> wraps one \<open>EncryptedJsonStore\<close>; its lock serialises the callers
  and has no effect on what a single caller computes.
\<close>

definition list_users :: "pylib \<Rightarrow> store \<Rightarrow> (error + json list) \<times> store" where
  "list_users L st =
     (case read L (JObject [(''users'', JArray [])]) st of
        (Inl e, st1) \<Rightarrow> (Inl e, st1)
      | (Inr data, st1) \<Rightarrow>
          (case py_get data ''users'' (JArray []) of
             Inl e \<Rightarrow> (Inl e, st1)
           | Inr users \<Rightarrow> (py_list users, st1)))"

definition save_users :: "pylib \<Rightarrow> json list \<Rightarrow> store \<Rightarrow> store" where
  "save_users L users st = store_write L (JObject [(''users'', JArray users)]) st"

section \<open>auth.py\<close>

text \<open>
  The private methods \<open>_load_users\<close>, \<open>_seed_defaults\<close>, \<open>_create_user_record\<close>,
  \<open>_hash_password\<close> and \<open>_persist\<close> are written without the leading underscore.

  The keys of \<open>self._records\<close> are the truthy, hashable values found under \<open>username\<close>:
  strings, and integers (\<open>True\<close> is the key \<open>1\<close>). The dict is an association list in
  insertion order with the three operations the service uses.
\<close>

datatype pykey = KStr string | KInt int

fun py_key :: "json \<Rightarrow> pykey option" where
  "py_key (JString s) = Some (KStr s)"
| "py_key (JInt n) = Some (KInt n)"
| "py_key (JBool b) = Some (KInt (if b then 1 else 0))"
| "py_key _ = None"

type_synonym records = "(pykey \<times> json) list"

text \<open>\<open>d.get(k)\<close>: \<open>None\<close> when the key is absent.\<close>

definition records_get :: "records \<Rightarrow> pykey \<Rightarrow> json" where
  "records_get d k = (case map_of d k of None \<Rightarrow> JNull | Some r \<Rightarrow> r)"

text \<open>\<open>d[k] = v\<close>: an existing key keeps its position, a new key goes last.\<close>

fun dict_set :: "records \<Rightarrow> pykey \<Rightarrow> json \<Rightarrow> records" where
  "dict_set [] k v = [(k, v)]"
| "dict_set (p # ps) k v = (if fst p = k then (k, v) # ps else p # dict_set ps k v)"

text \<open>\<open>del d[k]\<close> for a key that is present.\<close>

fun dict_del :: "records \<Rightarrow> pykey \<Rightarrow> records" where
  "dict_del [] k = []"
| "dict_del (p # ps) k = (if fst p = k then ps else p # dict_del ps k)"

definition dict_values :: "records \<Rightarrow> json list" where
  "dict_values d = map snd d"

datatype user = User json json json

record auth =
  records :: records
  user_store :: store

definition hash_password :: "pylib \<Rightarrow> string \<Rightarrow> bytes \<Rightarrow> string" where
  "hash_password L password salt = sha256_hexdigest L (salt @ utf8_encode L password)"

text \<open>
  \<open>hmac.compare_digest\<close> accepts two strings only when both are ASCII; the second
  argument is always the string computed by \<open>hash_password\<close>.
\<close>

fun compare_digest :: "json \<Rightarrow> string \<Rightarrow> error + bool" where
  "compare_digest (JString a) b =
     (if is_ascii a \<and> is_ascii b then Inr (a = b) else Inl TypeError)"
| "compare_digest _ b = Inl TypeError"

definition authenticate :: "pylib \<Rightarrow> string \<Rightarrow> string \<Rightarrow> auth \<Rightarrow> error + user option" where
  "authenticate L username password st =
     (let record = records_get (records st) (KStr username)
      in if record = JNull then Inr None
         else
          (case py_getitem record ''salt'' of Inl e \<Rightarrow> Inl e | Inr salt_b64 \<Rightarrow>
           (case py_b64decode L salt_b64 of Inl e \<Rightarrow> Inl e | Inr salt \<Rightarrow>
            (case py_getitem record ''password_hash'' of Inl e \<Rightarrow> Inl e | Inr expected_hash \<Rightarrow>
             (case compare_digest expected_hash (hash_password L password salt) of
                Inl e \<Rightarrow> Inl e
              | Inr False \<Rightarrow> Inr None
              | Inr True \<Rightarrow>
                 (case py_getitem record ''user_id'' of Inl e \<Rightarrow> Inl e | Inr user_id \<Rightarrow>
                  (case py_getitem record ''name'' of Inl e \<Rightarrow> Inl e | Inr name \<Rightarrow>
                   (case py_getitem record ''role'' of Inl e \<Rightarrow> Inl e | Inr role \<Rightarrow>
                      Inr (Some (User user_id name role))))))))))"

definition persist :: "pylib \<Rightarrow> auth \<Rightarrow> auth" where
  "persist L st = st\<lparr>user_store := save_users L (dict_values (records st)) (user_store st)\<rparr>"

text \<open>
  \<open>upsert_user\<close> and \<open>delete_user\<close> return the exception they raise (or \<open>None\<close>) with
  the state the service is left in. \<open>password\<close> is \<open>None\<close> or a string; \<open>if password\<close>
  is false for both \<open>None\<close> and the empty string.
\<close>

definition password_given :: "string option \<Rightarrow> bool" where
  "password_given password = (case password of None \<Rightarrow> False | Some p \<Rightarrow> p \<noteq> [])"

definition with_entropy :: "auth \<Rightarrow> entropy \<Rightarrow> auth" where
  "with_entropy st e = st\<lparr>user_store := (user_store st)\<lparr>entropy := e\<rparr>\<rparr>"

text \<open>The \<open>if password: ... else: ...\<close> block: the salt, the hash and the random source left.\<close>

definition stored_credentials ::
  "pylib \<Rightarrow> json \<Rightarrow> entropy \<Rightarrow> (error + bytes \<times> json) \<times> entropy" where
  "stored_credentials L record e =
     (case py_getitem record ''salt'' of Inl err \<Rightarrow> (Inl err, e) | Inr salt_b64 \<Rightarrow>
      (case py_b64decode L salt_b64 of Inl err \<Rightarrow> (Inl err, e) | Inr salt \<Rightarrow>
       (case py_getitem record ''password_hash'' of Inl err \<Rightarrow> (Inl err, e)
        | Inr password_hash \<Rightarrow> (Inr (salt, password_hash), e))))"

definition upsert_credentials ::
  "pylib \<Rightarrow> json \<Rightarrow> string option \<Rightarrow> entropy \<Rightarrow> (error + bytes \<times> json) \<times> entropy" where
  "upsert_credentials L record password e =
     (case password of
        None \<Rightarrow> stored_credentials L record e
      | Some p \<Rightarrow>
          if p \<noteq> []
          then (let (salt, e1) = os_urandom 16 e
                in (Inr (salt, JString (hash_password L p salt)), e1))
          else stored_credentials L record e)"

text \<open>\<open>record["user_id"] if record else f"u_{uuid4().hex}"\<close>\<close>

definition upsert_user_id :: "pylib \<Rightarrow> json \<Rightarrow> entropy \<Rightarrow> (error + json) \<times> entropy" where
  "upsert_user_id L record e =
     (if py_truthy record then (py_getitem record ''user_id'', e)
      else (let (h, e1) = uuid4_hex L e in (Inr (JString (''u_'' @ h)), e1)))"

definition upsert_user ::
  "pylib \<Rightarrow> string \<Rightarrow> string \<Rightarrow> string \<Rightarrow> string option \<Rightarrow> bool \<Rightarrow> auth \<Rightarrow> error option \<times> auth" where
  "upsert_user L username0 name role password full_access st =
     (let username = py_strip username0
      in if username = [] then (Some (ValueError ''Username is required.''), st)
         else
          (let record = records_get (records st) (KStr username)
           in if record = JNull \<and> \<not> password_given password
              then (Some (ValueError ''Password is required for new users.''), st)
              else
               (case upsert_credentials L record password (entropy (user_store st)) of
                  (Inl err, e1) \<Rightarrow> (Some err, with_entropy st e1)
                | (Inr (salt, password_hash), e1) \<Rightarrow>
                   (case upsert_user_id L record e1 of
                      (Inl err, e2) \<Rightarrow> (Some err, with_entropy st e2)
                    | (Inr user_id, e2) \<Rightarrow>
                       (let new_record = JObject
                              [(''username'', JString username),
                               (''name'', JString (if name = [] then username else name)),
                               (''role'', JString role),
                               (''user_id'', user_id),
                               (''salt'', JString (b64encode L salt)),
                               (''password_hash'', password_hash),
                               (''full_access'', JBool full_access)];
                            st1 = (with_entropy st e2)
                                    \<lparr>records := dict_set (records st) (KStr username) new_record\<rparr>
                        in (None, persist L st1))))))"

text \<open>\<open>entry["role"].lower() == "admin"\<close>\<close>

definition role_is_admin :: "json \<Rightarrow> error + bool" where
  "role_is_admin entry =
     (case py_getitem entry ''role'' of
        Inl e \<Rightarrow> Inl e
      | Inr (JString r) \<Rightarrow> Inr (py_lower r = ''admin'')
      | Inr _ \<Rightarrow> Inl AttributeError)"

text \<open>The generator sum over \<open>self._records.values()\<close>; the first failing entry raises.\<close>

fun admin_count :: "json list \<Rightarrow> error + nat" where
  "admin_count [] = Inr 0"
| "admin_count (entry # rest) =
     (case role_is_admin entry of
        Inl e \<Rightarrow> Inl e
      | Inr b \<Rightarrow>
         (case admin_count rest of
            Inl e \<Rightarrow> Inl e
          | Inr n \<Rightarrow> Inr (if b then n + 1 else n)))"

text \<open>The last two lines of \<open>delete_user\<close>: \<open>del self._records[username]\<close> and \<open>_persist()\<close>.\<close>

definition remove_record :: "pylib \<Rightarrow> string \<Rightarrow> auth \<Rightarrow> auth" where
  "remove_record L username st =
     persist L (st\<lparr>records := dict_del (records st) (KStr username)\<rparr>)"

definition delete_user :: "pylib \<Rightarrow> string \<Rightarrow> auth \<Rightarrow> error option \<times> auth" where
  "delete_user L username st =
     (let record = records_get (records st) (KStr username)
      in if record = JNull
         then (Some (ValueError (''User '' @ [CHR 0x27] @ username @ [CHR 0x27] @ '' does not exist.'')), st)
         else
          (case role_is_admin record of
             Inl e \<Rightarrow> (Some e, st)
           | Inr is_admin \<Rightarrow>
              if is_admin
              then (case admin_count (dict_values (records st)) of
                      Inl e \<Rightarrow> (Some e, st)
                    | Inr n \<Rightarrow>
                       if n \<le> 1
                       then (Some (ValueError ''At least one admin account must remain.''), st)
                       else (None, remove_record L username st))
              else (None, remove_record L username st)))"

text \<open>The loop of \<open>_load_users\<close> over the entries the store returned.\<close>

fun load_entries :: "json list \<Rightarrow> records \<Rightarrow> error + records" where
  "load_entries [] users = Inr users"
| "load_entries (entry # rest) users =
     (case py_get entry ''username'' JNull of
        Inl e \<Rightarrow> Inl e
      | Inr username \<Rightarrow>
         if \<not> py_truthy username then load_entries rest users
         else (case py_key username of
                 None \<Rightarrow> Inl TypeError
               | Some k \<Rightarrow> load_entries rest (dict_set users k entry)))"

definition load_users :: "pylib \<Rightarrow> store \<Rightarrow> (error + records) \<times> store" where
  "load_users L st =
     (case list_users L st of
        (Inl e, st1) \<Rightarrow> (Inl e, st1)
      | (Inr entries, st1) \<Rightarrow> (load_entries entries [], st1))"

definition create_user_record ::
  "pylib \<Rightarrow> string \<Rightarrow> string \<Rightarrow> string \<Rightarrow> string \<Rightarrow> string \<Rightarrow> bool \<Rightarrow> entropy \<Rightarrow> json \<times> entropy" where
  "create_user_record L username name role password user_id full_access e =
     (let (salt, e1) = os_urandom 16 e
      in (JObject [(''username'', JString username),
                   (''name'', JString name),
                   (''role'', JString role),
                   (''user_id'', JString user_id),
                   (''salt'', JString (b64encode L salt)),
                   (''password_hash'', JString (hash_password L password salt)),
                   (''full_access'', JBool full_access)], e1))"

definition seed_defaults :: "pylib \<Rightarrow> store \<Rightarrow> auth" where
  "seed_defaults L st =
     (let (admin, e1) = create_user_record L ''admin'' ''Administrator'' ''Admin''
                          ''admin123'' ''u_admin'' True (entropy st);
          (investigator, e2) = create_user_record L ''investigator'' ''Investigator''
                          ''Investigator'' ''invest123'' ''u_inv'' False e1;
          defaults = [admin, investigator]
      in \<lparr>records = [(KStr ''admin'', admin), (KStr ''investigator'', investigator)],
          user_store = save_users L defaults (st\<lparr>entropy := e2\<rparr>)\<rparr>)"

text \<open>\<open>AuthService.__init__\<close> on a user store that already exists.\<close>

definition auth_init :: "pylib \<Rightarrow> store \<Rightarrow> error + auth" where
  "auth_init L st =
     (case load_users L st of
        (Inl e, st1) \<Rightarrow> Inl e
      | (Inr recs, st1) \<Rightarrow>
          if recs \<noteq> [] then Inr \<lparr>records = recs, user_store = st1\<rparr>
          else (case load_users L (user_store (seed_defaults L st1)) of
                  (Inl e, st2) \<Rightarrow> Inl e
                | (Inr recs2, st2) \<Rightarrow> Inr \<lparr>records = recs2, user_store = st2\<rparr>))"

section \<open>A sample library\<close>

text \<open>
  One concrete instance of the library parameters, on which the theorems below are run:
  UTF-8 restricted to the code points below 256, a compact JSON printer with its parser,
  standard base64 (strict: no characters outside the alphabet), an additive stream cipher
  with a 16-byte IV, and a small polynomial hash. The sample parser never fails other than
  with \<open>JSONDecodeError\<close>.
\<close>

fun sample_utf8_encode :: "string \<Rightarrow> bytes" where
  "sample_utf8_encode [] = []"
| "sample_utf8_encode (c # cs) =
     (let n = (of_char c :: nat)
      in if n < 128 then c # sample_utf8_encode cs
         else char_of (192 + n div 64) # char_of (128 + n mod 64) # sample_utf8_encode cs)"

fun sample_utf8_decode :: "bytes \<Rightarrow> string option" where
  "sample_utf8_decode [] = Some []"
| "sample_utf8_decode [c] = (if (of_char c :: nat) < 128 then Some [c] else None)"
| "sample_utf8_decode (c # d # ds) =
     (let n = (of_char c :: nat); m = (of_char d :: nat)
      in if n < 128 then map_option (\<lambda>r. c # r) (sample_utf8_decode (d # ds))
         else if (n = 194 \<or> n = 195) \<and> 128 \<le> m \<and> m < 192
         then map_option (\<lambda>r. char_of ((n - 192) * 64 + (m - 128)) # r) (sample_utf8_decode ds)
         else None)"

definition dumps_int :: "int \<Rightarrow> string" where
  "dumps_int i = py_str_int i"

fun escape_char :: "char \<Rightarrow> string" where
  "escape_char c =
     (if c = CHR 0x22 then [CHR 0x5C, CHR 0x22]
      else if c = CHR 0x5C then [CHR 0x5C, CHR 0x5C] else [c])"

definition dumps_string :: "string \<Rightarrow> string" where
  "dumps_string s = CHR 0x22 # concat (map escape_char s) @ [CHR 0x22]"

fun sample_json_dumps :: "json \<Rightarrow> string"
  and dumps_items :: "json list \<Rightarrow> string"
  and dumps_fields :: "(string \<times> json) list \<Rightarrow> string" where
  "sample_json_dumps JNull = ''null''"
| "sample_json_dumps (JBool b) = (if b then ''true'' else ''false'')"
| "sample_json_dumps (JInt i) = dumps_int i"
| "sample_json_dumps (JString s) = dumps_string s"
| "sample_json_dumps (JArray xs) = ''['' @ dumps_items xs @ '']''"
| "sample_json_dumps (JObject kvs) = ''{'' @ dumps_fields kvs @ ''}''"
| "dumps_items [] = []"
| "dumps_items [x] = sample_json_dumps x"
| "dumps_items (x # y # ys) = sample_json_dumps x @ '','' @ dumps_items (y # ys)"
| "dumps_fields [] = []"
| "dumps_fields [(k, v)] = dumps_string k @ '':'' @ sample_json_dumps v"
| "dumps_fields ((k, v) # p # ps) =
     dumps_string k @ '':'' @ sample_json_dumps v @ '','' @ dumps_fields (p # ps)"

text \<open>
  The parser: every function returns what it read and the rest of the text. The first
  argument bounds the number of nested calls, one unit for each call.
\<close>

fun parse_string :: "string \<Rightarrow> string \<Rightarrow> (string \<times> string) option" where
  "parse_string acc [] = None"
| "parse_string acc (c # cs) =
     (if c = CHR 0x22 then Some (rev acc, cs)
      else if c = CHR 0x5C
      then (case cs of
              [] \<Rightarrow> None
            | d # ds \<Rightarrow> if d = CHR 0x22 \<or> d = CHR 0x5C then parse_string (d # acc) ds else None)
      else parse_string (c # acc) cs)"

definition is_digit :: "char \<Rightarrow> bool" where
  "is_digit c = (48 \<le> (of_char c :: nat) \<and> (of_char c :: nat) \<le> 57)"

fun parse_digits :: "nat \<Rightarrow> string \<Rightarrow> nat \<times> string" where
  "parse_digits acc [] = (acc, [])"
| "parse_digits acc (c # cs) =
     (if is_digit c then parse_digits (acc * 10 + (of_char c - 48)) cs else (acc, c # cs))"

definition parse_int :: "string \<Rightarrow> (json \<times> string) option" where
  "parse_int s =
     (case s of
        [] \<Rightarrow> None
      | c # cs \<Rightarrow>
          if c = CHR ''-''
          then (case cs of
                  [] \<Rightarrow> None
                | d # ds \<Rightarrow> if is_digit d
                            then (let (n, r) = parse_digits 0 cs in Some (JInt (- int n), r))
                            else None)
          else if is_digit c then (let (n, r) = parse_digits 0 s in Some (JInt (int n), r))
          else None)"

fun parse_value :: "unit list \<Rightarrow> string \<Rightarrow> (json \<times> string) option"
  and parse_items :: "unit list \<Rightarrow> json list \<Rightarrow> string \<Rightarrow> (json \<times> string) option"
  and parse_fields :: "unit list \<Rightarrow> (string \<times> json) list \<Rightarrow> string \<Rightarrow> (json \<times> string) option" where
  "parse_value [] s = None"
| "parse_value (u # fuel) s =
     (if take 4 s = ''null'' then Some (JNull, drop 4 s)
      else if take 4 s = ''true'' then Some (JBool True, drop 4 s)
      else if take 5 s = ''false'' then Some (JBool False, drop 5 s)
      else if take 1 s = [CHR 0x22]
      then map_option (\<lambda>(t, r). (JString t, r)) (parse_string [] (drop 1 s))
      else if take 2 s = ''[]'' then Some (JArray [], drop 2 s)
      else if take 1 s = ''['' then parse_items fuel [] (drop 1 s)
      else if take 2 s = ''{}'' then Some (JObject [], drop 2 s)
      else if take 1 s = ''{'' then parse_fields fuel [] (drop 1 s)
      else parse_int s)"
| "parse_items [] acc s = None"
| "parse_items (u # fuel) acc s =
     (case parse_value fuel s of
        None \<Rightarrow> None
      | Some (v, r) \<Rightarrow>
          if take 1 r = '','' then parse_items fuel (v # acc) (drop 1 r)
          else if take 1 r = '']'' then Some (JArray (rev (v # acc)), drop 1 r)
          else None)"
| "parse_fields [] acc s = None"
| "parse_fields (u # fuel) acc s =
     (if take 1 s \<noteq> [CHR 0x22] then None
      else (case parse_string [] (drop 1 s) of
              None \<Rightarrow> None
            | Some (k, r) \<Rightarrow>
                if take 1 r \<noteq> '':'' then None
                else (case parse_value fuel (drop 1 r) of
                        None \<Rightarrow> None
                      | Some (v, r2) \<Rightarrow>
                          if take 1 r2 = '','' then parse_fields fuel ((k, v) # acc) (drop 1 r2)
                          else if take 1 r2 = ''}'' then Some (JObject (rev ((k, v) # acc)), drop 1 r2)
                          else None)))"

definition sample_json_loads :: "string \<Rightarrow> error + json" where
  "sample_json_loads s =
     (case parse_value (() # () # map (\<lambda>c. ()) (s @ s)) s of
        Some (v, []) \<Rightarrow> Inr v
      | _ \<Rightarrow> Inl JSONDecodeError)"

definition b64_alphabet :: string where
  "b64_alphabet = ''ABCDEFGHIJKLMNOPQRSTUVWXYZabcdefghijklmnopqrstuvwxyz0123456789+/''"

definition b64_char :: "nat \<Rightarrow> char" where
  "b64_char n = b64_alphabet ! (n mod 64)"

fun index_of :: "char \<Rightarrow> string \<Rightarrow> nat option" where
  "index_of c [] = None"
| "index_of c (x # xs) = (if c = x then Some 0 else map_option Suc (index_of c xs))"

fun sample_b64encode :: "bytes \<Rightarrow> string" where
  "sample_b64encode [] = []"
| "sample_b64encode [a] =
     (let x = (of_char a :: nat)
      in [b64_char (x div 4), b64_char ((x mod 4) * 16), CHR ''='', CHR ''=''])"
| "sample_b64encode [a, b] =
     (let x = (of_char a :: nat); y = (of_char b :: nat)
      in [b64_char (x div 4), b64_char ((x mod 4) * 16 + y div 16),
          b64_char ((y mod 16) * 4), CHR ''=''])"
| "sample_b64encode (a # b # c # rest) =
     (let x = (of_char a :: nat); y = (of_char b :: nat); z = (of_char c :: nat)
      in [b64_char (x div 4), b64_char ((x mod 4) * 16 + y div 16),
          b64_char ((y mod 16) * 4 + z div 64), b64_char (z mod 64)] @ sample_b64encode rest)"

fun sample_b64decode :: "string \<Rightarrow> bytes option" where
  "sample_b64decode [] = Some []"
| "sample_b64decode (p # q # r # s # rest) =
     (case (index_of p b64_alphabet, index_of q b64_alphabet) of
        (Some i, Some j) \<Rightarrow>
          (if r = CHR ''='' \<and> s = CHR ''='' \<and> rest = []
           then Some [char_of (i * 4 + j div 16)]
           else (case index_of r b64_alphabet of
                   None \<Rightarrow> None
                 | Some k \<Rightarrow>
                     if s = CHR ''='' \<and> rest = []
                     then Some [char_of (i * 4 + j div 16), char_of ((j mod 16) * 16 + k div 4)]
                     else (case index_of s b64_alphabet of
                             None \<Rightarrow> None
                           | Some l \<Rightarrow>
                               map_option
                                 (\<lambda>t. char_of (i * 4 + j div 16)
                                       # char_of ((j mod 16) * 16 + k div 4)
                                       # char_of ((k mod 4) * 64 + l) # t)
                                 (sample_b64decode rest))))
      | _ \<Rightarrow> None)"
| "sample_b64decode _ = None"

definition key_byte :: "bytes \<Rightarrow> nat \<Rightarrow> nat" where
  "key_byte k i = (if k = [] then 0 else of_char (k ! (i mod length k)))"

definition sample_encrypt :: "bytes \<Rightarrow> bytes \<Rightarrow> entropy \<Rightarrow> (bytes \<times> bytes) \<times> entropy" where
  "sample_encrypt pt k e =
     (let (iv, e1) = os_urandom 16 e
      in ((iv, map (\<lambda>(i, c). char_of (of_char c + key_byte k i + key_byte iv i))
                   (zip [0..<length pt] pt)), e1))"

definition sample_decrypt :: "bytes \<Rightarrow> bytes \<Rightarrow> bytes \<Rightarrow> bytes option" where
  "sample_decrypt iv ct k =
     (if length iv \<noteq> 16 then None
      else Some (map (\<lambda>(i, c). char_of (of_char c + 512 - key_byte k i - key_byte iv i))
                     (zip [0..<length ct] ct)))"

definition hex_byte :: "nat \<Rightarrow> string" where
  "hex_byte n = [''0123456789abcdef'' ! ((n div 16) mod 16), ''0123456789abcdef'' ! (n mod 16)]"

definition sample_hexdigest :: "bytes \<Rightarrow> string" where
  "sample_hexdigest b =
     (let h = fold (\<lambda>c h. (h * 31 + of_char c) mod 65536) b (7 :: nat)
      in hex_byte (h div 256) @ hex_byte (h mod 256))"

definition sample_uuid4_hex :: "entropy \<Rightarrow> string \<times> entropy" where
  "sample_uuid4_hex e =
     (let (b, e1) = os_urandom 16 e in (concat (map (\<lambda>c. hex_byte (of_char c)) b), e1))"

definition sample_lib :: pylib where
  "sample_lib =
     \<lparr>utf8_encode = sample_utf8_encode,
      utf8_decode = sample_utf8_decode,
      json_loads = sample_json_loads,
      json_dumps = sample_json_dumps,
      b64encode = sample_b64encode,
      b64decode = sample_b64decode,
      aes256_encrypt = sample_encrypt,
      aes256_decrypt = sample_decrypt,
      sha256_hexdigest = sample_hexdigest,
      uuid4_hex = sample_uuid4_hex\<rparr>"

definition sample_entropy :: entropy where
  "sample_entropy = (\<lambda>i. ''q7Zk2mXw9cRt4Lp0'' ! (i mod 16))"

section \<open>What a write produces, and the laws a round trip rests on\<close>

text \<open>
  What \<open>store_write\<close> does with a document \<open>x\<close> under the key \<open>k\<close> and the random source
  \<open>e\<close>: the bytes handed to the cipher, the IV and ciphertext it returns, the envelope
  and the text of the file.
\<close>

definition payload_bytes :: "pylib \<Rightarrow> json \<Rightarrow> bytes" where
  "payload_bytes L x = utf8_encode L (json_dumps L x)"

definition encrypted_parts :: "pylib \<Rightarrow> bytes \<Rightarrow> entropy \<Rightarrow> json \<Rightarrow> bytes \<times> bytes" where
  "encrypted_parts L k e x = fst (aes256_encrypt L (payload_bytes L x) k e)"

definition envelope_of :: "pylib \<Rightarrow> bytes \<Rightarrow> entropy \<Rightarrow> json \<Rightarrow> json" where
  "envelope_of L k e x =
     JObject [(''iv'', JString (b64encode L (fst (encrypted_parts L k e x)))),
              (''ciphertext'', JString (b64encode L (snd (encrypted_parts L k e x))))]"

definition envelope_text :: "pylib \<Rightarrow> bytes \<Rightarrow> entropy \<Rightarrow> json \<Rightarrow> string" where
  "envelope_text L k e x = json_dumps L (envelope_of L k e x)"

text \<open>
  The round-trip law of the cipher, at one plaintext: decrypting what \<open>aes256_encrypt\<close>
  returned, under the same key, gives the plaintext back.
\<close>

definition cipher_roundtrip :: "pylib \<Rightarrow> bytes \<Rightarrow> entropy \<Rightarrow> bytes \<Rightarrow> bool" where
  "cipher_roundtrip L k e pt =
     (aes256_decrypt L (fst (fst (aes256_encrypt L pt k e))) (snd (fst (aes256_encrypt L pt k e))) k
        = Some pt)"

text \<open>
  The laws of the standard library the round trip of a document \<open>x\<close> rests on: UTF-8,
  JSON and base64 decoding undo the encoding, on the very texts and byte strings that
  writing \<open>x\<close> produces, and the text of an envelope is not blank.
\<close>

definition codec_laws :: "pylib \<Rightarrow> bytes \<Rightarrow> entropy \<Rightarrow> json \<Rightarrow> bool" where
  "codec_laws L k e x =
     (utf8_decode L (utf8_encode L (envelope_text L k e x)) = Some (envelope_text L k e x)
      \<and> py_strip (envelope_text L k e x) \<noteq> []
      \<and> json_loads L (envelope_text L k e x) = Inr (envelope_of L k e x)
      \<and> b64decode L (b64encode L (fst (encrypted_parts L k e x))) = Some (fst (encrypted_parts L k e x))
      \<and> b64decode L (b64encode L (snd (encrypted_parts L k e x))) = Some (snd (encrypted_parts L k e x))
      \<and> utf8_decode L (payload_bytes L x) = Some (json_dumps L x)
      \<and> json_loads L (json_dumps L x) = Inr x)"

section \<open>Sample states\<close>

definition sample_key :: bytes where
  "sample_key = replicate 32 (CHR ''k'')"

definition other_key :: bytes where
  "other_key = replicate 32 (CHR ''j'')"

definition km_absent :: key_manager where
  "km_absent = \<lparr>key_file = None, km_entropy = sample_entropy\<rparr>"

definition km_present :: key_manager where
  "km_present = \<lparr>key_file = Some sample_key, km_entropy = sample_entropy\<rparr>"

definition km_short :: key_manager where
  "km_short = \<lparr>key_file = Some ''short'', km_entropy = sample_entropy\<rparr>"

definition sample_doc :: json where
  "sample_doc = JArray [JObject [(''case_id'', JString ''case-7'')]]"

definition sample_store :: store where
  "sample_store = \<lparr>skey = sample_key, sfile = None, entropy = sample_entropy\<rparr>"

definition written_store :: store where
  "written_store = store_write sample_lib sample_doc sample_store"

definition wrong_key_store :: store where
  "wrong_key_store = written_store\<lparr>skey := other_key\<rparr>"

definition legacy_store :: store where
  "legacy_store = sample_store\<lparr>sfile := Some ''[{\"case_id\":\"case-7\"}]''\<rparr>"

definition garbage_store :: store where
  "garbage_store = sample_store\<lparr>sfile := Some ''{\"iv\": \"AAAA\", \"cipher''\<rparr>"

text \<open>The values the sample document goes through when it is written under the sample key.\<close>

text \<open>The sample document inside a tuple: a Python value that is not a JSON value.\<close>

definition sample_tuple :: pyvalue where
  "sample_tuple = PTuple [PDict [(PStr ''case_id'', PStr ''case-7'')]]"

text \<open>
  Two stored users as \<open>_seed_defaults\<close> creates them, with the sample salt and the sample
  hash of \<open>salt + password\<close>.
\<close>

definition sample_admin :: json where
  "sample_admin =
     JObject [(''username'', JString ''admin''),
              (''name'', JString ''Administrator''),
              (''role'', JString ''Admin''),
              (''user_id'', JString ''u_admin''),
              (''salt'', JString ''cTdaazJtWHc5Y1J0NExwMA==''),
              (''password_hash'', JString ''7c1f''),
              (''full_access'', JBool True)]"

definition sample_investigator :: json where
  "sample_investigator =
     JObject [(''username'', JString ''investigator''),
              (''name'', JString ''Investigator''),
              (''role'', JString ''Investigator''),
              (''user_id'', JString ''u_inv''),
              (''salt'', JString ''cTdaazJtWHc5Y1J0NExwMA==''),
              (''password_hash'', JString ''da01''),
              (''full_access'', JBool False)]"

definition sample_auth :: auth where
  "sample_auth =
     \<lparr>records = [(KStr ''admin'', sample_admin), (KStr ''investigator'', sample_investigator)],
      user_store = sample_store\<rparr>"

text \<open>A persisted entry without a usable username, and a legacy user file that holds it.\<close>

definition nameless_entry :: json where
  "nameless_entry = JObject [(''username'', JString []), (''role'', JString ''Admin'')]"

definition bob_entry :: json where
  "bob_entry = JObject [(''username'', JString ''bob''), (''role'', JString ''Viewer'')]"

definition users_text :: string where
  "users_text =
     ''{\"users\":[{\"username\":\"\",\"role\":\"Admin\"},{\"username\":\"bob\",\"role\":\"Viewer\"}]}''"

definition users_store :: store where
  "users_store = sample_store\<lparr>sfile := Some users_text\<rparr>"

definition users_doc :: json where
  "users_doc = JObject [(''users'', JArray [nameless_entry, bob_entry])]"

definition loaded_auth :: auth where
  "loaded_auth =
     \<lparr>records = [(KStr ''bob'', bob_entry)],
      user_store = store_write sample_lib users_doc users_store\<rparr>"

definition no_users_doc :: json where
  "no_users_doc = JObject [(''users'', JArray [])]"




text \<open>What the empty list of users goes through when it is written under the sample key.\<close>

definition no_users_payload :: string where
  "no_users_payload = ''{\"users\":[]}''"

definition no_users_ciphertext :: bytes where
  "no_users_ciphertext =
     [CHR ''W'', CHR 0xC4, CHR '':'', CHR ''I'', CHR 0x02, CHR ''J'',
      CHR ''6'', CHR 0x04, CHR 0xDE, CHR '')'', CHR 0x1A, CHR 0x5C]"

definition no_users_envelope :: json where
  "no_users_envelope =
     JObject [(''iv'', JString ''cTdaazJtWHc5Y1J0NExwMA==''),
              (''ciphertext'', JString ''V8Q6SQJKNgTeKRpc'')]"

definition no_users_envelope_text :: string where
  "no_users_envelope_text =
     ''{\"iv\":\"cTdaazJtWHc5Y1J0NExwMA==\",\"ciphertext\":\"V8Q6SQJKNgTeKRpc\"}''"

section \<open>Sequences of Auth Service operations\<close>

datatype auth_op =
    Authenticate string string
  | UpsertUser string string string "string option" bool
  | DeleteUser string

text \<open>One call; an exception leaves the service in the state it was raised in.\<close>

fun apply_op :: "pylib \<Rightarrow> auth \<Rightarrow> auth_op \<Rightarrow> auth" where
  "apply_op L st (Authenticate username password) = st"
| "apply_op L st (UpsertUser username name role password full_access) =
     snd (upsert_user L username name role password full_access st)"
| "apply_op L st (DeleteUser username) = snd (delete_user L username st)"

definition run_ops :: "pylib \<Rightarrow> auth_op list \<Rightarrow> auth \<Rightarrow> auth" where
  "run_ops L ops st = foldl (apply_op L) st ops"

text \<open>Some record counts as an Admin for \<open>delete_user\<close>: its role, lower-cased, is \<open>admin\<close>.\<close>

definition has_admin :: "records \<Rightarrow> bool" where
  "has_admin recs = list_ex (\<lambda>r. role_is_admin r = Inr True) (dict_values recs)"

text \<open>An entry of the persisted list whose \<open>username\<close> is missing or empty (falsy).\<close>

definition username_missing_or_empty :: "json \<Rightarrow> bool" where
  "username_missing_or_empty entry =
     (case py_get entry ''username'' JNull of Inl _ \<Rightarrow> False | Inr v \<Rightarrow> \<not> py_truthy v)"

text \<open>Every key of a loaded mapping is a non-empty username, and no value lacks one.\<close>

definition named_records :: "records \<Rightarrow> bool" where
  "named_records recs =
     (\<forall>p \<in> set recs. fst p \<noteq> KStr [] \<and> \<not> username_missing_or_empty (snd p))"

text \<open>The document \<open>save_users\<close> writes for a list of records.\<close>

definition users_document :: "json list \<Rightarrow> json" where
  "users_document users = JObject [(''users'', JArray users)]"

text \<open>
  The random source as \<open>upsert_user\<close> leaves it for \<open>_persist\<close>, after the salt and
  the user id have been drawn.
\<close>

definition upsert_entropy :: "pylib \<Rightarrow> records \<Rightarrow> string \<Rightarrow> string option \<Rightarrow> entropy \<Rightarrow> entropy" where
  "upsert_entropy L recs username password e =
     snd (upsert_user_id L (records_get recs (KStr (py_strip username)))
            (snd (upsert_credentials L (records_get recs (KStr (py_strip username))) password e)))"

section \<open>storage.py: the lock of the Evidence Store\<close>

text \<open>
  Several callers of one \<open>EvidenceStore\<close> run interleaved. Each method is the sequence of
  its atomic steps, in the order of the source: \<open>with self._lock\<close> is an \<open>Acquire\<close> before
  the block and a \<open>Release\<close> after it, \<open>self._read()\<close> copies the stored list into the
  caller's local \<open>data\<close>, \<open>data.append(payload)\<close> changes the local list and
  \<open>self._write(data)\<close> replaces the stored list. The stored list stands for the document
  of the encrypted file, which \<open>_read\<close> returns as \<open>_write\<close> left it (claim C4).
\<close>

datatype action = Acquire | Release | ReadData | AppendData json | WriteData | WriteEmpty

definition add_image :: "json \<Rightarrow> action list" where
  "add_image payload = [Acquire, ReadData, AppendData payload, WriteData, Release]"

definition list_images :: "action list" where
  "list_images = [ReadData]"

definition clear :: "action list" where
  "clear = [Acquire, WriteEmpty, Release]"

record caller =
  todo :: "action list"
  data :: "json list"

record evidence =
  lock :: "nat option"
  doc :: "json list"
  callers :: "caller list"

definition start :: "action list \<Rightarrow> caller" where
  "start steps = \<lparr>todo = steps, data = []\<rparr>"

text \<open>
  One step of caller \<open>i\<close>; \<open>None\<close> when it cannot run: it has finished, or it waits for
  the lock another caller holds.
\<close>

definition step :: "nat \<Rightarrow> evidence \<Rightarrow> evidence option" where
  "step i ev =
     (if i \<ge> length (callers ev) then None
      else
       (let c = callers ev ! i
        in case todo c of
             [] \<Rightarrow> None
           | a # rest \<Rightarrow>
              (case a of
                 Acquire \<Rightarrow>
                   if lock ev = None
                   then Some (ev\<lparr>lock := Some i, callers := (callers ev)[i := c\<lparr>todo := rest\<rparr>]\<rparr>)
                   else None
               | Release \<Rightarrow>
                   Some (ev\<lparr>lock := None, callers := (callers ev)[i := c\<lparr>todo := rest\<rparr>]\<rparr>)
               | ReadData \<Rightarrow>
                   Some (ev\<lparr>callers := (callers ev)[i := c\<lparr>todo := rest, data := doc ev\<rparr>]\<rparr>)
               | AppendData payload \<Rightarrow>
                   Some (ev\<lparr>callers := (callers ev)[i := c\<lparr>todo := rest, data := data c @ [payload]\<rparr>]\<rparr>)
               | WriteData \<Rightarrow>
                   Some (ev\<lparr>doc := data c, callers := (callers ev)[i := c\<lparr>todo := rest\<rparr>]\<rparr>)
               | WriteEmpty \<Rightarrow>
                   Some (ev\<lparr>doc := [], callers := (callers ev)[i := c\<lparr>todo := rest\<rparr>]\<rparr>))))"

text \<open>A schedule names the caller that takes each next step.\<close>

fun run :: "nat list \<Rightarrow> evidence \<Rightarrow> evidence option" where
  "run [] ev = Some ev"
| "run (i # schedule) ev = (case step i ev of None \<Rightarrow> None | Some ev1 \<Rightarrow> run schedule ev1)"

definition finished :: "evidence \<Rightarrow> bool" where
  "finished ev = list_all (\<lambda>c. todo c = []) (callers ev)"

text \<open>One caller adds a record while a second caller lists, or clears.\<close>

definition adding_and_listing :: evidence where
  "adding_and_listing =
     \<lparr>lock = None, doc = [], callers = [start (add_image (JString ''image-1'')), start list_images]\<rparr>"

definition adding_and_clearing :: evidence where
  "adding_and_clearing =
     \<lparr>lock = None, doc = [], callers = [start (add_image (JString ''image-1'')), start clear]\<rparr>"

text \<open>
  The invariant of a run in which caller \<open>i\<close> adds the record \<open>ps ! i\<close>: where each caller
  stands in \<open>add_image\<close>, who holds the lock, and which records are in the stored list.
\<close>

definition adder_at :: "evidence \<Rightarrow> nat \<Rightarrow> json \<Rightarrow> caller \<Rightarrow> bool" where
  "adder_at ev i p c =
     ((todo c = add_image p \<and> lock ev \<noteq> Some i)
      \<or> (todo c = [ReadData, AppendData p, WriteData, Release] \<and> lock ev = Some i)
      \<or> (todo c = [AppendData p, WriteData, Release] \<and> lock ev = Some i \<and> data c = doc ev)
      \<or> (todo c = [WriteData, Release] \<and> lock ev = Some i \<and> data c = doc ev @ [p])
      \<or> (todo c = [Release] \<and> lock ev = Some i)
      \<or> (todo c = [] \<and> lock ev \<noteq> Some i))"

definition written_by :: "caller \<Rightarrow> json \<Rightarrow> json multiset" where
  "written_by c p = (if length (todo c) \<le> 1 then {#p#} else {#})"

definition adders :: "json list \<Rightarrow> json list \<Rightarrow> evidence \<Rightarrow> bool" where
  "adders ps d0 ev =
     (length (callers ev) = length ps
      \<and> (\<forall>i<length ps. adder_at ev i (ps ! i) (callers ev ! i))
      \<and> mset (doc ev) = mset d0 + (\<Sum>i<length ps. written_by (callers ev ! i) (ps ! i)))"

section \<open>The key manager\<close>

text \<open>
  Claim C8. \<open>SecretKeyManager.load_key\<close> returns only keys of exactly 32 bytes; when the
  key file is absent it first creates it from the next 32 bytes of the random source and
  returns them; it raises if and only if the key file on disk has a length other than 32;
  with a 32-byte file in place it returns the file's bytes and changes nothing, so a second
  call after a successful first one returns the same key and leaves the state as it is.
\<close>

theorem load_key_contract:
  "(\<forall>k km1. load_key km = (Inr k, km1) \<longrightarrow> length k = 32)
   \<and> (key_file km = None \<longrightarrow>
        load_key km = (Inr (fst (os_urandom 32 (km_entropy km))),
                       \<lparr>key_file = Some (fst (os_urandom 32 (km_entropy km))),
                        km_entropy = snd (os_urandom 32 (km_entropy km))\<rparr>))
   \<and> ((\<exists>e. fst (load_key km) = Inl e) \<longleftrightarrow> (\<exists>b. key_file km = Some b \<and> length b \<noteq> 32))
   \<and> (\<forall>b. key_file km = Some b \<and> length b = 32 \<longrightarrow> load_key km = (Inr b, km))
   \<and> (\<forall>k. fst (load_key km) = Inr k \<longrightarrow> load_key (snd (load_key km)) = (Inr k, snd (load_key km)))"
  by (cases km; cases "key_file km")
     (auto simp: load_key_def check_key_def os_urandom_def Let_def
        split: option.splits if_splits prod.splits)

theorem load_key_contract_witness:
  "key_file km_absent = None
   \<and> fst (load_key km_absent) = Inr (map sample_entropy [0..<32])
   \<and> key_file (snd (load_key km_absent)) = Some (map sample_entropy [0..<32])
   \<and> key_file km_present = Some sample_key \<and> length sample_key = 32
   \<and> load_key km_present = (Inr sample_key, km_present)
   \<and> key_file km_short = Some ''short'' \<and> length ''short'' \<noteq> 32
   \<and> (\<exists>e. fst (load_key km_short) = Inl e)"
  using load_key_contract [of km_absent] load_key_contract [of km_present]
    load_key_contract [of km_short]
  by (simp add: km_absent_def km_present_def km_short_def sample_key_def os_urandom_def
      load_key_def check_key_def)

section \<open>The encrypted document store\<close>

lemma store_write_file:
  "sfile (store_write L x st)
     = Some (utf8_encode L (envelope_text L (skey st) (entropy st) x))"
  by (simp add: store_write_def envelope_text_def envelope_of_def encrypted_parts_def
      payload_bytes_def Let_def split: prod.splits)

lemma store_write_key: "skey (store_write L x st) = skey st"
  by (simp add: store_write_def Let_def split: prod.splits)

lemma read_encrypted_envelope:
  assumes "cipher_roundtrip L k e (payload_bytes L x)" and "codec_laws L k e x"
  shows "read_encrypted L k (envelope_text L k e x) = Some x"
  using assms
  by (simp add: read_encrypted_def codec_laws_def cipher_roundtrip_def envelope_of_def
      encrypted_parts_def)

lemma read_after_write:
  assumes "cipher_roundtrip L (skey st) (entropy st) (payload_bytes L x)"
    and "codec_laws L (skey st) (entropy st) x"
  shows "read L d (store_write L x st) = (Inr x, store_write L x st)"
proof -
  have "utf8_decode L (utf8_encode L (envelope_text L (skey st) (entropy st) x))
          = Some (envelope_text L (skey st) (entropy st) x)"
    and "py_strip (envelope_text L (skey st) (entropy st) x) \<noteq> []"
    using assms(2) by (simp_all add: codec_laws_def)
  then show ?thesis
    using read_encrypted_envelope [OF assms]
    by (simp add: read_def store_write_file store_write_key)
qed

lemma read_fallback:
  assumes "sfile st = Some content" and "utf8_decode L content = Some raw"
    and "read_encrypted L (skey st) raw = None"
  shows "json_loads L raw = Inl JSONDecodeError \<Longrightarrow> read L d st = (Inr d, st)"
    and "py_strip raw \<noteq> [] \<Longrightarrow> json_loads L raw = Inr v
           \<Longrightarrow> read L d st = (Inr v, store_write L v st)"
  using assms by (simp_all add: read_def)

subsection \<open>The sample document, written and read step by step\<close>

lemma sample_lib_sel:
  "utf8_encode sample_lib = sample_utf8_encode"
  "utf8_decode sample_lib = sample_utf8_decode"
  "json_loads sample_lib = sample_json_loads"
  "json_dumps sample_lib = sample_json_dumps"
  "b64encode sample_lib = sample_b64encode"
  "b64decode sample_lib = sample_b64decode"
  "aes256_encrypt sample_lib = sample_encrypt"
  "aes256_decrypt sample_lib = sample_decrypt"
  "sha256_hexdigest sample_lib = sample_hexdigest"
  "uuid4_hex sample_lib = sample_uuid4_hex"
  by (simp_all add: sample_lib_def)

definition sample_payload :: string where
  "sample_payload = ''[{\"case_id\":\"case-7\"}]''"

definition sample_iv :: bytes where
  "sample_iv = ''q7Zk2mXw9cRt4Lp0''"

definition sample_ciphertext :: bytes where
  "sample_ciphertext =
     [CHR ''7'', CHR 0x1D, CHR 0xE7, CHR ''9'', CHR 0xFE, CHR ''K'', CHR ''('',
      CHR ''A'', CHR 0x0D, CHR ''2'', CHR 0xDF, CHR 0x19, CHR 0xC1, CHR 0x1A,
      CHR ''<'', CHR 0x0E, CHR ''A'', CHR 0xCF, CHR 0xFC, CHR 0xF8, CHR 0x1A, CHR ''5'']"

definition sample_envelope :: json where
  "sample_envelope =
     JObject [(''iv'', JString ''cTdaazJtWHc5Y1J0NExwMA==''),
              (''ciphertext'', JString ''Nx3nOf5LKEENMt8ZwRo8DkHP/PgaNQ=='')]"

definition sample_envelope_text :: string where
  "sample_envelope_text =
     ''{\"iv\":\"cTdaazJtWHc5Y1J0NExwMA==\",\"ciphertext\":\"Nx3nOf5LKEENMt8ZwRo8DkHP/PgaNQ==\"}''"

definition garbage_payload :: string where
  "garbage_payload = [CHR 0x5C] @ ''|#dbtf'' @ [CHR 0x60] @ ''je#;#dbtf.8#~^''"

lemma sample_dumps_doc: "sample_json_dumps sample_doc = sample_payload"
  by (simp add: sample_doc_def sample_payload_def dumps_string_def)

lemma sample_encode_payload: "sample_utf8_encode sample_payload = sample_payload"
  by (simp add: sample_payload_def)

lemma sample_decode_payload: "sample_utf8_decode sample_payload = Some sample_payload"
  by (simp add: sample_payload_def)

lemma sample_loads_payload: "sample_json_loads sample_payload = Inr sample_doc"
  by (simp add: sample_payload_def sample_doc_def sample_json_loads_def parse_int_def is_digit_def)

lemma sample_draw_iv: "fst (os_urandom 16 sample_entropy) = sample_iv"
  by (simp add: os_urandom_def sample_entropy_def sample_iv_def upt_rec)

lemma sample_encrypt_payload:
  "fst (sample_encrypt sample_payload sample_key sample_entropy) = (sample_iv, sample_ciphertext)"
proof -
  have "map (\<lambda>(i, c). char_of (of_char c + key_byte sample_key i + key_byte sample_iv i))
          (zip [0..<length sample_payload] sample_payload) = sample_ciphertext"
    by (simp add: sample_payload_def sample_key_def sample_iv_def sample_ciphertext_def
        key_byte_def upt_rec char_of_def bit_iff_odd)
  then show ?thesis
    using sample_draw_iv by (simp add: sample_encrypt_def case_prod_beta)
qed

lemma sample_decrypt_payload:
  "sample_decrypt sample_iv sample_ciphertext sample_key = Some sample_payload"
  by (simp add: sample_decrypt_def sample_payload_def sample_key_def sample_iv_def
      sample_ciphertext_def key_byte_def upt_rec char_of_def bit_iff_odd)

lemma sample_decrypt_other_key:
  "sample_decrypt sample_iv sample_ciphertext other_key = Some garbage_payload"
  by (simp add: sample_decrypt_def garbage_payload_def other_key_def sample_iv_def
      sample_ciphertext_def key_byte_def upt_rec char_of_def bit_iff_odd)

lemma sample_decode_garbage: "sample_utf8_decode garbage_payload = Some garbage_payload"
  by (simp add: garbage_payload_def)

lemma sample_loads_garbage: "sample_json_loads garbage_payload = Inl JSONDecodeError"
  by (simp add: garbage_payload_def sample_json_loads_def parse_int_def is_digit_def)

lemma sample_b64encode_iv: "sample_b64encode sample_iv = ''cTdaazJtWHc5Y1J0NExwMA==''"
  by (simp add: sample_iv_def b64_char_def b64_alphabet_def)

lemma sample_b64encode_ciphertext:
  "sample_b64encode sample_ciphertext = ''Nx3nOf5LKEENMt8ZwRo8DkHP/PgaNQ==''"
  by (simp add: sample_ciphertext_def b64_char_def b64_alphabet_def)

lemma sample_b64decode_iv: "sample_b64decode ''cTdaazJtWHc5Y1J0NExwMA=='' = Some sample_iv"
  by (simp add: sample_iv_def b64_alphabet_def char_of_def bit_iff_odd)

lemma sample_b64decode_ciphertext:
  "sample_b64decode ''Nx3nOf5LKEENMt8ZwRo8DkHP/PgaNQ=='' = Some sample_ciphertext"
  by (simp add: sample_ciphertext_def b64_alphabet_def char_of_def bit_iff_odd)

lemma sample_dumps_envelope: "sample_json_dumps sample_envelope = sample_envelope_text"
  by (simp add: sample_envelope_def sample_envelope_text_def dumps_string_def)

lemma sample_encode_envelope: "sample_utf8_encode sample_envelope_text = sample_envelope_text"
  by (simp add: sample_envelope_text_def)

lemma sample_decode_envelope:
  "sample_utf8_decode sample_envelope_text = Some sample_envelope_text"
  by (simp add: sample_envelope_text_def)

lemma sample_loads_envelope: "sample_json_loads sample_envelope_text = Inr sample_envelope"
  by (simp add: sample_envelope_text_def sample_envelope_def sample_json_loads_def
      parse_int_def is_digit_def)

lemma sample_envelope_not_blank: "py_strip sample_envelope_text \<noteq> []"
  by (simp add: sample_envelope_text_def py_strip_def py_isspace_def)

lemma sample_payload_not_blank: "py_strip sample_payload \<noteq> []"
  by (simp add: sample_payload_def py_strip_def py_isspace_def)

text \<open>From here on the sample functions are used through the steps above only.\<close>

declare sample_utf8_encode.simps [simp del] sample_utf8_decode.simps [simp del]
  sample_json_dumps.simps [simp del] sample_b64encode.simps [simp del]
  sample_b64decode.simps [simp del]

lemma sample_payload_bytes: "payload_bytes sample_lib sample_doc = sample_payload"
  by (simp add: payload_bytes_def sample_lib_sel sample_dumps_doc sample_encode_payload)

lemma sample_parts:
  "encrypted_parts sample_lib sample_key sample_entropy sample_doc = (sample_iv, sample_ciphertext)"
  by (simp add: encrypted_parts_def sample_payload_bytes sample_lib_sel sample_encrypt_payload)

lemma sample_envelope_of:
  "envelope_of sample_lib sample_key sample_entropy sample_doc = sample_envelope"
  by (simp add: envelope_of_def sample_parts sample_lib_sel sample_b64encode_iv
      sample_b64encode_ciphertext sample_envelope_def)

lemma sample_envelope_text_of:
  "envelope_text sample_lib sample_key sample_entropy sample_doc = sample_envelope_text"
  by (simp add: envelope_text_def sample_envelope_of sample_lib_sel sample_dumps_envelope)

lemma sample_cipher_roundtrip:
  "cipher_roundtrip sample_lib sample_key sample_entropy (payload_bytes sample_lib sample_doc)"
  by (simp add: cipher_roundtrip_def sample_payload_bytes sample_lib_sel sample_encrypt_payload
      sample_decrypt_payload)

lemma sample_codec_laws: "codec_laws sample_lib sample_key sample_entropy sample_doc"
  by (simp add: codec_laws_def sample_envelope_text_of sample_envelope_of sample_parts
      sample_payload_bytes sample_lib_sel sample_encode_envelope sample_decode_envelope
      sample_envelope_not_blank sample_loads_envelope sample_b64encode_iv
      sample_b64encode_ciphertext sample_b64decode_iv
      sample_b64decode_ciphertext sample_decode_payload sample_dumps_doc sample_loads_payload)

lemma written_store_file: "sfile written_store = Some sample_envelope_text"
  by (simp add: written_store_def store_write_file sample_store_def sample_envelope_text_of
      sample_lib_sel sample_encode_envelope)

lemma sample_envelope_other_key:
  "read_encrypted sample_lib other_key sample_envelope_text = None"
  by (simp add: read_encrypted_def sample_lib_sel sample_loads_envelope sample_envelope_def
      sample_b64decode_iv sample_b64decode_ciphertext sample_decrypt_other_key
      sample_decode_garbage sample_loads_garbage)

lemma sample_payload_not_envelope:
  "read_encrypted sample_lib sample_key sample_payload = None"
  by (simp add: read_encrypted_def sample_lib_sel sample_loads_payload sample_doc_def)

subsection \<open>Read after write\<close>

lemma to_json_of_json:
  "py_to_json (of_json j) = Inr j"
  "to_json_list (of_json_list js) = Inr js"
  "to_json_items (of_json_fields fs) = Inr fs"
  by (induction j and js and fs rule: of_json_of_json_list_of_json_fields.induct) simp_all

lemma write_value_json: "py_to_json x = Inr j \<Longrightarrow> write_value L x st = (None, store_write L j st)"
  by (simp add: write_value_def)

text \<open>
  Claim C4 says that \<open>write(x)\<close> followed by \<open>read(default)\<close> returns a document equal
  to \<open>x\<close> for every JSON-serializable \<open>x\<close>, given the round-trip law of the cipher. A
  tuple is JSON-serializable, and it comes back as a list: here the sample document inside
  a tuple is written and read under the sample library, whose cipher satisfies the law at
  the bytes written. The read returns the JSON array, which is not the tuple.
\<close>

theorem write_then_read_counterexample:
  "cipher_roundtrip sample_lib (skey sample_store) (entropy sample_store)
     (payload_bytes sample_lib sample_doc)
   \<and> write_value sample_lib sample_tuple sample_store
       = (None, store_write sample_lib sample_doc sample_store)
   \<and> read sample_lib JNull (snd (write_value sample_lib sample_tuple sample_store))
       = (Inr sample_doc, store_write sample_lib sample_doc sample_store)
   \<and> of_json sample_doc = PList [PDict [(PStr ''case_id'', PStr ''case-7'')]]
   \<and> of_json sample_doc \<noteq> sample_tuple"
proof -
  have c: "cipher_roundtrip sample_lib (skey sample_store) (entropy sample_store)
             (payload_bytes sample_lib sample_doc)"
    using sample_cipher_roundtrip by (simp add: sample_store_def)
  have l: "codec_laws sample_lib (skey sample_store) (entropy sample_store) sample_doc"
    using sample_codec_laws by (simp add: sample_store_def)
  have t: "py_to_json sample_tuple = Inr sample_doc"
    by (simp add: sample_tuple_def sample_doc_def)
  have w: "write_value sample_lib sample_tuple sample_store
             = (None, store_write sample_lib sample_doc sample_store)"
    using t by (rule write_value_json)
  have o: "of_json sample_doc = PList [PDict [(PStr ''case_id'', PStr ''case-7'')]]"
    by (simp add: sample_doc_def)
  show ?thesis
    using c w o read_after_write [OF c l, of JNull] by (simp add: sample_tuple_def)
qed

text \<open>
  Claim C4, amended. Let \<open>x\<close> be a JSON-serializable value and \<open>j\<close> its JSON image,
  what \<open>json.dumps(x, default=str)\<close> serialises: tuples as arrays, keys that are integers,
  booleans or \<open>None\<close> as strings, objects of other classes by \<open>str\<close>. If the cipher gives
  back the plaintext it encrypted (the round-trip law, at the bytes of \<open>j\<close>), and UTF-8,
  JSON and base64 decoding undo their encodings on what the write produced, then \<open>write(x)\<close>
  succeeds, and \<open>read(default)\<close> on the same store returns \<open>j\<close> and leaves the store as
  the write left it. When \<open>x\<close> is a JSON value (strings, integers, booleans, \<open>None\<close>, lists
  and dicts with string keys of such values), \<open>j\<close> is \<open>x\<close> itself.
\<close>

theorem write_then_read:
  assumes "py_to_json x = Inr j"
    and "cipher_roundtrip L (skey st) (entropy st) (payload_bytes L j)"
    and "codec_laws L (skey st) (entropy st) j"
  shows "write_value L x st = (None, store_write L j st)
         \<and> read L d (snd (write_value L x st)) = (Inr j, store_write L j st)
         \<and> (\<forall>y. x = of_json y \<longrightarrow> j = y)"
  using assms(1) write_value_json [OF assms(1), of L st] read_after_write [OF assms(2,3), of d]
    to_json_of_json(1)
  by auto

theorem write_then_read_witness:
  "py_to_json (of_json sample_doc) = Inr sample_doc
   \<and> cipher_roundtrip sample_lib (skey sample_store) (entropy sample_store)
       (payload_bytes sample_lib sample_doc)
   \<and> codec_laws sample_lib (skey sample_store) (entropy sample_store) sample_doc
   \<and> write_value sample_lib (of_json sample_doc) sample_store
       = (None, store_write sample_lib sample_doc sample_store)
   \<and> read sample_lib JNull (snd (write_value sample_lib (of_json sample_doc) sample_store))
       = (Inr sample_doc, store_write sample_lib sample_doc sample_store)"
proof -
  have t: "py_to_json (of_json sample_doc) = Inr sample_doc"
    by (rule to_json_of_json(1))
  have c: "cipher_roundtrip sample_lib (skey sample_store) (entropy sample_store)
             (payload_bytes sample_lib sample_doc)"
    using sample_cipher_roundtrip by (simp add: sample_store_def)
  have l: "codec_laws sample_lib (skey sample_store) (entropy sample_store) sample_doc"
    using sample_codec_laws by (simp add: sample_store_def)
  show ?thesis
    using t c l write_then_read [OF t c l, of JNull] by blast
qed

subsection \<open>Migration of a legacy plaintext file\<close>

text \<open>
  Claim C5. Let the file hold text \<open>raw\<close> that is valid JSON for the value \<open>v\<close> and that
  the encrypted path does not accept (it is not a decryptable envelope). Then the first
  \<open>read\<close> returns \<open>v\<close> and leaves the store exactly as \<open>write(v)\<close> leaves it: the file is
  now the envelope of \<open>v\<close>. Under the laws of C4 for \<open>v\<close>, a second \<open>read\<close> returns \<open>v\<close>
  again, through the encrypted path, and changes nothing: there is no second migration.
\<close>

theorem legacy_migration:
  assumes "sfile st = Some content" and "utf8_decode L content = Some raw"
    and "py_strip raw \<noteq> []"
    and "read_encrypted L (skey st) raw = None"
    and "json_loads L raw = Inr v"
    and "cipher_roundtrip L (skey st) (entropy st) (payload_bytes L v)"
    and "codec_laws L (skey st) (entropy st) v"
  shows "read L d st = (Inr v, store_write L v st)
         \<and> sfile (store_write L v st)
             = Some (utf8_encode L (envelope_text L (skey st) (entropy st) v))
         \<and> read_encrypted L (skey (store_write L v st))
              (envelope_text L (skey st) (entropy st) v) = Some v
         \<and> read L d2 (store_write L v st) = (Inr v, store_write L v st)"
  using read_fallback(2) [OF assms(1,2,4,3,5)] read_encrypted_envelope [OF assms(6,7)]
    read_after_write [OF assms(6,7)]
  by (simp add: store_write_file store_write_key)

theorem legacy_migration_witness:
  "sfile legacy_store = Some sample_payload
   \<and> utf8_decode sample_lib sample_payload = Some sample_payload
   \<and> py_strip sample_payload \<noteq> []
   \<and> read_encrypted sample_lib (skey legacy_store) sample_payload = None
   \<and> json_loads sample_lib sample_payload = Inr sample_doc
   \<and> read sample_lib JNull legacy_store = (Inr sample_doc, store_write sample_lib sample_doc legacy_store)
   \<and> sfile (store_write sample_lib sample_doc legacy_store) = Some sample_envelope_text
   \<and> read sample_lib JNull (store_write sample_lib sample_doc legacy_store)
       = (Inr sample_doc, store_write sample_lib sample_doc legacy_store)"
proof -
  have k: "skey legacy_store = sample_key" and e: "entropy legacy_store = sample_entropy"
    by (simp_all add: legacy_store_def sample_store_def)
  have h1: "sfile legacy_store = Some sample_payload"
    by (simp add: legacy_store_def sample_payload_def)
  have h2: "utf8_decode sample_lib sample_payload = Some sample_payload"
    by (simp add: sample_lib_sel sample_decode_payload)
  have h3: "py_strip sample_payload \<noteq> []"
    by (rule sample_payload_not_blank)
  have h4: "read_encrypted sample_lib (skey legacy_store) sample_payload = None"
    by (simp add: k sample_payload_not_envelope)
  have h5: "json_loads sample_lib sample_payload = Inr sample_doc"
    by (simp add: sample_lib_sel sample_loads_payload)
  have h6: "cipher_roundtrip sample_lib (skey legacy_store) (entropy legacy_store)
              (payload_bytes sample_lib sample_doc)"
    by (simp add: k e sample_cipher_roundtrip)
  have h7: "codec_laws sample_lib (skey legacy_store) (entropy legacy_store) sample_doc"
    by (simp add: k e sample_codec_laws)
  show ?thesis
    using h1 h2 h3 h4 h5 legacy_migration [OF h1 h2 h3 h4 h5 h6 h7, of JNull JNull]
    by (simp add: k e sample_envelope_text_of sample_lib_sel sample_encode_envelope)
qed

subsection \<open>A file the encrypted path rejects\<close>

text \<open>
  Claim C1 says that a read of an intact envelope written under another 32-byte key
  returns the caller's default. It does not: the text of an envelope is itself JSON, so
  when decryption fails the legacy fallback parses the envelope, returns it as if it were
  the document and writes it back encrypted. Here the sample document is written under
  the sample key and read by a store that holds another key, with the default \<open>[]\<close>.
\<close>

theorem wrong_key_read_counterexample:
  "length sample_key = 32 \<and> length other_key = 32 \<and> other_key \<noteq> sample_key
   \<and> sfile wrong_key_store = sfile (store_write sample_lib sample_doc sample_store)
   \<and> skey wrong_key_store = other_key
   \<and> read sample_lib (JArray []) wrong_key_store
       = (Inr sample_envelope, store_write sample_lib sample_envelope wrong_key_store)
   \<and> sample_envelope \<noteq> JArray []"
proof -
  have f: "sfile wrong_key_store = Some sample_envelope_text"
    by (simp add: wrong_key_store_def written_store_file)
  have k: "skey wrong_key_store = other_key"
    by (simp add: wrong_key_store_def)
  have "read sample_lib (JArray []) wrong_key_store
          = (Inr sample_envelope, store_write sample_lib sample_envelope wrong_key_store)"
    by (simp add: read_def f k sample_lib_sel sample_decode_envelope sample_envelope_not_blank
        sample_envelope_other_key sample_loads_envelope)
  then show ?thesis
    by (simp add: k sample_key_def other_key_def sample_envelope_def wrong_key_store_def
        written_store_def)
qed

text \<open>
  The file is decoded before the \<open>try\<close> block is entered: bytes that are not valid UTF-8
  make \<open>read_text\<close>, and so \<open>read\<close>, raise.
\<close>

lemma read_undecodable_file:
  "sfile st = Some content \<Longrightarrow> utf8_decode L content = None
     \<Longrightarrow> read L d st = (Inl UnicodeDecodeError, st)"
  by (simp add: read_def)

text \<open>
  Claim C1, amended. Let the file hold text \<open>raw\<close> (valid UTF-8) that the encrypted path
  rejects. If \<open>raw\<close> is not parseable as JSON (\<open>json.loads\<close> raises \<open>JSONDecodeError\<close>),
  \<open>read\<close> returns the caller's default, raises nothing and leaves the store untouched.
  If \<open>raw\<close> is parseable as JSON, as the text of every intact envelope is, \<open>read\<close>
  returns the parsed value and rewrites the file with it through \<open>write\<close>.
\<close>

theorem read_rejected_file:
  assumes "sfile st = Some content" and "utf8_decode L content = Some raw"
    and "read_encrypted L (skey st) raw = None"
  shows "(json_loads L raw = Inl JSONDecodeError \<longrightarrow> read L d st = (Inr d, st))
         \<and> (\<forall>v. py_strip raw \<noteq> [] \<and> json_loads L raw = Inr v
                \<longrightarrow> read L d st = (Inr v, store_write L v st))"
  using read_fallback [OF assms] by blast

theorem read_rejected_file_witness:
  "sfile garbage_store = Some ''{\"iv\": \"AAAA\", \"cipher''
   \<and> json_loads sample_lib ''{\"iv\": \"AAAA\", \"cipher'' = Inl JSONDecodeError
   \<and> read sample_lib (JArray []) garbage_store = (Inr (JArray []), garbage_store)
   \<and> sfile wrong_key_store = Some sample_envelope_text
   \<and> py_strip sample_envelope_text \<noteq> []
   \<and> json_loads sample_lib sample_envelope_text = Inr sample_envelope
   \<and> read sample_lib (JArray []) wrong_key_store
       = (Inr sample_envelope, store_write sample_lib sample_envelope wrong_key_store)"
proof -
  have g1: "sfile garbage_store = Some ''{\"iv\": \"AAAA\", \"cipher''"
    by (simp add: garbage_store_def)
  have g2: "utf8_decode sample_lib ''{\"iv\": \"AAAA\", \"cipher'' = Some ''{\"iv\": \"AAAA\", \"cipher''"
    by (simp add: sample_lib_sel sample_utf8_decode.simps)
  have g4: "json_loads sample_lib ''{\"iv\": \"AAAA\", \"cipher'' = Inl JSONDecodeError"
    by (simp add: sample_lib_sel sample_json_loads_def parse_int_def is_digit_def)
  have g3: "read_encrypted sample_lib (skey garbage_store) ''{\"iv\": \"AAAA\", \"cipher'' = None"
    using g4 by (simp add: read_encrypted_def)
  have w1: "sfile wrong_key_store = Some sample_envelope_text"
    by (simp add: wrong_key_store_def written_store_file)
  have w2: "utf8_decode sample_lib sample_envelope_text = Some sample_envelope_text"
    by (simp add: sample_lib_sel sample_decode_envelope)
  have w3: "read_encrypted sample_lib (skey wrong_key_store) sample_envelope_text = None"
    by (simp add: wrong_key_store_def sample_envelope_other_key)
  have w4: "json_loads sample_lib sample_envelope_text = Inr sample_envelope"
    by (simp add: sample_lib_sel sample_loads_envelope)
  show ?thesis
    using g1 g4 w1 w4 sample_envelope_not_blank
      read_rejected_file [OF g1 g2 g3, of "JArray []"]
      read_rejected_file [OF w1 w2 w3, of "JArray []"]
    by simp
qed

section \<open>The Auth Service\<close>

lemma records_persist: "records (persist L st) = records st"
  by (simp add: persist_def)

lemma with_entropy_same: "with_entropy st (entropy (user_store st)) = st"
  by (simp add: with_entropy_def)

lemma records_get_absent: "map_of recs k = None \<Longrightarrow> records_get recs k = JNull"
  by (simp add: records_get_def)

lemma records_get_present: "map_of recs k = Some r \<Longrightarrow> records_get recs k = r"
  by (simp add: records_get_def)

lemma getitem_not_null: "py_getitem r k = Inr v \<Longrightarrow> r \<noteq> JNull \<and> py_truthy r"
  by (cases r) (auto split: option.splits)

lemma role_is_admin_not_null: "role_is_admin r = Inr b \<Longrightarrow> r \<noteq> JNull"
  by (auto simp: role_is_admin_def)

subsection \<open>Sample evaluations\<close>

lemma lower_Admin: "py_lower ''Admin'' = ''admin''"
  by (simp add: py_lower_def py_lower_char_def char_of_def bit_iff_odd)

lemma sample_admin_is_admin: "role_is_admin sample_admin = Inr True"
  by (simp add: role_is_admin_def sample_admin_def lower_Admin)

lemma sample_investigator_not_admin: "role_is_admin sample_investigator = Inr False"
  by (simp add: role_is_admin_def sample_investigator_def py_lower_def py_lower_char_def
      char_of_def bit_iff_odd)

lemma sample_admin_count: "admin_count (dict_values (records sample_auth)) = Inr 1"
  by (simp add: sample_auth_def dict_values_def sample_admin_is_admin
      sample_investigator_not_admin)



subsection \<open>Errors that leave the state alone\<close>

text \<open>
  Claim C6. Each of these calls raises a \<open>ValueError\<close> and returns with the in-memory
  mapping and the user store exactly as they were: \<open>upsert_user\<close> with a username that is
  empty after \<open>strip()\<close>; \<open>upsert_user\<close> with a username not in the mapping and no
  password (\<open>None\<close> or the empty string); \<open>delete_user\<close> for a username not in the mapping;
  \<open>delete_user\<close> for a record that counts as Admin when the count of Admin records is one.
\<close>

theorem domain_errors_leave_state:
  "(py_strip username = []
      \<longrightarrow> upsert_user L username name role password full_access st
            = (Some (ValueError ''Username is required.''), st))
   \<and> (py_strip username \<noteq> [] \<and> map_of (records st) (KStr (py_strip username)) = None
        \<and> \<not> password_given password
      \<longrightarrow> upsert_user L username name role password full_access st
            = (Some (ValueError ''Password is required for new users.''), st))
   \<and> (map_of (records st) (KStr u) = None
      \<longrightarrow> delete_user L u st
            = (Some (ValueError (''User '' @ [CHR 0x27] @ u @ [CHR 0x27] @ '' does not exist.'')), st))
   \<and> (\<forall>record. map_of (records st) (KStr u) = Some record \<and> role_is_admin record = Inr True
                 \<and> admin_count (dict_values (records st)) = Inr 1
      \<longrightarrow> delete_user L u st
            = (Some (ValueError ''At least one admin account must remain.''), st))"
proof (intro conjI impI allI)
  assume "py_strip username = []"
  then show "upsert_user L username name role password full_access st
               = (Some (ValueError ''Username is required.''), st)"
    by (simp add: upsert_user_def)
next
  assume "py_strip username \<noteq> [] \<and> map_of (records st) (KStr (py_strip username)) = None
            \<and> \<not> password_given password"
  then show "upsert_user L username name role password full_access st
               = (Some (ValueError ''Password is required for new users.''), st)"
    by (simp add: upsert_user_def records_get_absent)
next
  assume "map_of (records st) (KStr u) = None"
  then show "delete_user L u st
               = (Some (ValueError (''User '' @ [CHR 0x27] @ u @ [CHR 0x27] @ '' does not exist.'')), st)"
    by (simp add: delete_user_def records_get_absent)
next
  fix rcd
  assume a: "map_of (records st) (KStr u) = Some rcd \<and> role_is_admin rcd = Inr True
               \<and> admin_count (dict_values (records st)) = Inr 1"
  then have "rcd \<noteq> JNull"
    using role_is_admin_not_null by blast
  with a show "delete_user L u st
                 = (Some (ValueError ''At least one admin account must remain.''), st)"
    by (simp add: delete_user_def records_get_present)
qed

theorem domain_errors_leave_state_witness:
  "py_strip ''   '' = []
   \<and> upsert_user sample_lib ''   '' ''Carol'' ''Viewer'' (Some ''pw'') False sample_auth
       = (Some (ValueError ''Username is required.''), sample_auth)
   \<and> py_strip ''carol'' \<noteq> [] \<and> map_of (records sample_auth) (KStr (py_strip ''carol'')) = None
   \<and> \<not> password_given None
   \<and> upsert_user sample_lib ''carol'' ''Carol'' ''Viewer'' None False sample_auth
       = (Some (ValueError ''Password is required for new users.''), sample_auth)
   \<and> map_of (records sample_auth) (KStr ''nobody'') = None
   \<and> fst (delete_user sample_lib ''nobody'' sample_auth) \<noteq> None
   \<and> snd (delete_user sample_lib ''nobody'' sample_auth) = sample_auth
   \<and> map_of (records sample_auth) (KStr ''admin'') = Some sample_admin
   \<and> role_is_admin sample_admin = Inr True
   \<and> admin_count (dict_values (records sample_auth)) = Inr 1
   \<and> delete_user sample_lib ''admin'' sample_auth
       = (Some (ValueError ''At least one admin account must remain.''), sample_auth)"
proof -
  have s1: "py_strip ''   '' = []" and s2: "py_strip ''carol'' = ''carol''"
    by (simp_all add: py_strip_def py_isspace_def)
  have m1: "map_of (records sample_auth) (KStr ''carol'') = None"
    and m2: "map_of (records sample_auth) (KStr ''nobody'') = None"
    and m3: "map_of (records sample_auth) (KStr ''admin'') = Some sample_admin"
    by (simp_all add: sample_auth_def)
  have p: "\<not> password_given None"
    by (simp add: password_given_def)
  show ?thesis
    using s1 s2 m1 m2 m3 p sample_admin_is_admin sample_admin_count
      domain_errors_leave_state [of "''   ''" sample_lib "''Carol''" "''Viewer''" "Some ''pw''"
        False sample_auth "''nobody''"]
      domain_errors_leave_state [of "''carol''" sample_lib "''Carol''" "''Viewer''" None
        False sample_auth "''admin''"]
    by simp
qed

subsection \<open>authenticate\<close>




subsection \<open>upsert\_user on an existing user, without a password\<close>

lemma upsert_empty_password_same:
  "upsert_user L username name role (Some []) full_access st
     = upsert_user L username name role None full_access st"
proof -
  have p: "password_given (Some []) = False" "password_given None = False"
    by (simp_all add: password_given_def)
  have c: "upsert_credentials L r (Some []) e = upsert_credentials L r None e" for r e
    by (simp add: upsert_credentials_def)
  show ?thesis
    unfolding upsert_user_def p c by (rule refl)
qed

lemma upsert_existing:
  assumes "py_strip username \<noteq> []"
    and "map_of (records st) (KStr (py_strip username)) = Some rcd"
    and "py_getitem rcd ''salt'' = Inr (JString sb)" and "b64decode L sb = Some s"
    and "py_getitem rcd ''password_hash'' = Inr h"
    and "py_getitem rcd ''user_id'' = Inr uid"
  shows "upsert_user L username name role None full_access st
         = (None, persist L (st\<lparr>records := dict_set (records st) (KStr (py_strip username))
              (JObject [(''username'', JString (py_strip username)),
                        (''name'', JString (if name = [] then py_strip username else name)),
                        (''role'', JString role),
                        (''user_id'', uid),
                        (''salt'', JString (b64encode L s)),
                        (''password_hash'', h),
                        (''full_access'', JBool full_access)])\<rparr>))"
proof -
  have n: "rcd \<noteq> JNull" and t: "py_truthy rcd"
    using getitem_not_null [OF assms(3)] by simp_all
  have g: "records_get (records st) (KStr (py_strip username)) = rcd"
    using assms(2) by (rule records_get_present)
  have c: "upsert_credentials L rcd None (entropy (user_store st))
             = (Inr (s, h), entropy (user_store st))"
    using assms(3,4,5) by (simp add: upsert_credentials_def stored_credentials_def)
  have i: "upsert_user_id L rcd (entropy (user_store st)) = (Inr uid, entropy (user_store st))"
    using t assms(6) by (simp add: upsert_user_id_def)
  show ?thesis
    using assms(1) n
    by (simp add: upsert_user_def g c i with_entropy_same Let_def)
qed

text \<open>
  Claim C9 says that name, role and full\_access are replaced with the new values. An
  empty new name is not stored: the record gets the username as its name. Here the
  stored Admin is updated with the empty name and the empty password.
\<close>

theorem upsert_empty_name_counterexample:
  "map_of (records sample_auth) (KStr ''admin'') = Some sample_admin
   \<and> fst (upsert_user sample_lib ''admin'' [] ''Admin'' (Some []) True sample_auth) = None
   \<and> py_getitem
        (records_get
           (records (snd (upsert_user sample_lib ''admin'' [] ''Admin'' (Some []) True sample_auth)))
           (KStr ''admin'')) ''name''
       = Inr (JString ''admin'')
   \<and> JString ''admin'' \<noteq> JString []"
proof -
  have s: "py_strip ''admin'' = ''admin''"
    by (simp add: py_strip_def py_isspace_def)
  have m: "map_of (records sample_auth) (KStr (py_strip ''admin'')) = Some sample_admin"
    by (simp add: s sample_auth_def)
  have g: "py_getitem sample_admin ''salt'' = Inr (JString ''cTdaazJtWHc5Y1J0NExwMA=='')"
    "py_getitem sample_admin ''password_hash'' = Inr (JString ''7c1f'')"
    "py_getitem sample_admin ''user_id'' = Inr (JString ''u_admin'')"
    by (simp_all add: sample_admin_def)
  have d: "b64decode sample_lib ''cTdaazJtWHc5Y1J0NExwMA=='' = Some sample_iv"
    by (simp add: sample_lib_sel sample_b64decode_iv)
  have "s \<noteq> []" if "s = ''admin''" for s :: string
    using that by simp
  then have ne: "py_strip ''admin'' \<noteq> []"
    using s by simp
  have u: "upsert_user sample_lib ''admin'' [] ''Admin'' (Some []) True sample_auth
             = (None, persist sample_lib (sample_auth\<lparr>records := dict_set (records sample_auth)
                  (KStr ''admin'')
                  (JObject [(''username'', JString ''admin''),
                            (''name'', JString ''admin''),
                            (''role'', JString ''Admin''),
                            (''user_id'', JString ''u_admin''),
                            (''salt'', JString (b64encode sample_lib sample_iv)),
                            (''password_hash'', JString ''7c1f''),
                            (''full_access'', JBool True)])\<rparr>))"
    using upsert_existing [OF ne m g(1) d g(2) g(3), of "[]" "''Admin''" True]
    by (simp add: upsert_empty_password_same s)
  have "map_of (records sample_auth) (KStr ''admin'') = Some sample_admin"
    using m by (simp add: s)
  then show ?thesis
    unfolding u by (simp add: records_persist sample_auth_def records_get_def)
qed

text \<open>
  Claim C9, amended. \<open>upsert_user\<close> with the empty string as password does exactly what
  it does with no password. For a username that, stripped, is in the mapping with a record
  that has a salt (valid base64), a password hash and a user id: the call succeeds, the new
  record carries the stored password hash and user id unchanged and the stored salt bytes
  (encoded in base64 again), its role and full\_access are the new values, and its name is
  the new name, or the username when the new name is empty; the full set is persisted.
\<close>

theorem upsert_without_password:
  "upsert_user L username name role (Some []) full_access st
     = upsert_user L username name role None full_access st
   \<and> (\<forall>rcd sb s h uid.
        py_strip username \<noteq> []
        \<and> map_of (records st) (KStr (py_strip username)) = Some rcd
        \<and> py_getitem rcd ''salt'' = Inr (JString sb) \<and> b64decode L sb = Some s
        \<and> py_getitem rcd ''password_hash'' = Inr h
        \<and> py_getitem rcd ''user_id'' = Inr uid
        \<longrightarrow> upsert_user L username name role (Some []) full_access st
              = (None, persist L (st\<lparr>records := dict_set (records st) (KStr (py_strip username))
                   (JObject [(''username'', JString (py_strip username)),
                             (''name'', JString (if name = [] then py_strip username else name)),
                             (''role'', JString role),
                             (''user_id'', uid),
                             (''salt'', JString (b64encode L s)),
                             (''password_hash'', h),
                             (''full_access'', JBool full_access)])\<rparr>)))"
  using upsert_existing [of username st _ _ L]
  by (simp add: upsert_empty_password_same)

theorem upsert_without_password_witness:
  "py_strip '' admin '' \<noteq> []
   \<and> map_of (records sample_auth) (KStr (py_strip '' admin '')) = Some sample_admin
   \<and> py_getitem sample_admin ''salt'' = Inr (JString ''cTdaazJtWHc5Y1J0NExwMA=='')
   \<and> b64decode sample_lib ''cTdaazJtWHc5Y1J0NExwMA=='' = Some sample_iv
   \<and> upsert_user sample_lib '' admin '' ''Root'' ''Viewer'' (Some []) False sample_auth
       = (None, persist sample_lib (sample_auth\<lparr>records :=
            [(KStr ''admin'',
              JObject [(''username'', JString ''admin''),
                       (''name'', JString ''Root''),
                       (''role'', JString ''Viewer''),
                       (''user_id'', JString ''u_admin''),
                       (''salt'', JString ''cTdaazJtWHc5Y1J0NExwMA==''),
                       (''password_hash'', JString ''7c1f''),
                       (''full_access'', JBool False)]),
             (KStr ''investigator'', sample_investigator)]\<rparr>))"
proof -
  have s: "py_strip '' admin '' = ''admin''"
    by (simp add: py_strip_def py_isspace_def)
  have m: "map_of (records sample_auth) (KStr ''admin'') = Some sample_admin"
    by (simp add: sample_auth_def)
  have g: "py_getitem sample_admin ''salt'' = Inr (JString ''cTdaazJtWHc5Y1J0NExwMA=='')"
    "py_getitem sample_admin ''password_hash'' = Inr (JString ''7c1f'')"
    "py_getitem sample_admin ''user_id'' = Inr (JString ''u_admin'')"
    by (simp_all add: sample_admin_def)
  have d: "b64decode sample_lib ''cTdaazJtWHc5Y1J0NExwMA=='' = Some sample_iv"
    by (simp add: sample_lib_sel sample_b64decode_iv)
  have r: "records sample_auth
             = [(KStr ''admin'', sample_admin), (KStr ''investigator'', sample_investigator)]"
    by (simp add: sample_auth_def)
  have "upsert_user sample_lib '' admin '' ''Root'' ''Viewer'' (Some []) False sample_auth
          = (None, persist sample_lib (sample_auth\<lparr>records := dict_set (records sample_auth)
               (KStr ''admin'')
               (JObject [(''username'', JString ''admin''),
                         (''name'', JString ''Root''),
                         (''role'', JString ''Viewer''),
                         (''user_id'', JString ''u_admin''),
                         (''salt'', JString (b64encode sample_lib sample_iv)),
                         (''password_hash'', JString ''7c1f''),
                         (''full_access'', JBool False)])\<rparr>))"
    using m g d
      upsert_without_password [of sample_lib "'' admin ''" "''Root''" "''Viewer''" False sample_auth,
        THEN conjunct2]
    by (simp add: s)
  then show ?thesis
    using m g d by (simp add: s r sample_lib_sel sample_b64encode_iv)
qed

subsection \<open>The last Admin\<close>

text \<open>
  Claim C2 says that no sequence of operations leaves the mapping without an Admin.
  \<open>delete_user\<close> refuses to remove the last Admin, but \<open>upsert_user\<close> has no such check:
  updating the only Admin with another role succeeds. The sample mapping holds one Admin
  and one Investigator; after the one call below no record has the role Admin.
\<close>

theorem upsert_removes_last_admin:
  "has_admin (records sample_auth)
   \<and> fst (upsert_user sample_lib ''admin'' ''Administrator'' ''Viewer'' None False sample_auth) = None
   \<and> \<not> has_admin (records (run_ops sample_lib
           [UpsertUser ''admin'' ''Administrator'' ''Viewer'' None False] sample_auth))"
proof -
  have s: "py_strip ''admin'' = ''admin''"
    by (simp add: py_strip_def py_isspace_def)
  have m: "map_of (records sample_auth) (KStr (py_strip ''admin'')) = Some sample_admin"
    by (simp add: s sample_auth_def)
  have g: "py_getitem sample_admin ''salt'' = Inr (JString ''cTdaazJtWHc5Y1J0NExwMA=='')"
    "py_getitem sample_admin ''password_hash'' = Inr (JString ''7c1f'')"
    "py_getitem sample_admin ''user_id'' = Inr (JString ''u_admin'')"
    by (simp_all add: sample_admin_def)
  have d: "b64decode sample_lib ''cTdaazJtWHc5Y1J0NExwMA=='' = Some sample_iv"
    by (simp add: sample_lib_sel sample_b64decode_iv)
  have ne: "py_strip ''admin'' \<noteq> []"
    by (simp add: s)
  have v: "py_lower ''Viewer'' \<noteq> ''admin''"
    by (simp add: py_lower_def py_lower_char_def char_of_def bit_iff_odd)
  have before: "has_admin (records sample_auth)"
    by (simp add: has_admin_def sample_auth_def dict_values_def sample_admin_is_admin)
  have u: "upsert_user sample_lib ''admin'' ''Administrator'' ''Viewer'' None False sample_auth
             = (None, persist sample_lib (sample_auth\<lparr>records := dict_set (records sample_auth)
                  (KStr ''admin'')
                  (JObject [(''username'', JString ''admin''),
                            (''name'', JString ''Administrator''),
                            (''role'', JString ''Viewer''),
                            (''user_id'', JString ''u_admin''),
                            (''salt'', JString (b64encode sample_lib sample_iv)),
                            (''password_hash'', JString ''7c1f''),
                            (''full_access'', JBool False)])\<rparr>))"
    using upsert_existing [OF ne m g(1) d g(2) g(3), of "''Administrator''" "''Viewer''" False]
    by (simp add: s)
  have after: "\<not> has_admin (records (run_ops sample_lib
                 [UpsertUser ''admin'' ''Administrator'' ''Viewer'' None False] sample_auth))"
    unfolding run_ops_def foldl.simps apply_op.simps u
    using v sample_investigator_not_admin
    by (simp add: records_persist sample_auth_def has_admin_def dict_values_def role_is_admin_def)
  show ?thesis
    using before after by (simp add: u)
qed

text \<open>
  \<open>delete_user\<close> and \<open>authenticate\<close> do keep an Admin in the mapping: a sequence of
  operations without \<open>upsert_user\<close> never removes the last one.
\<close>

lemma admin_count_filter:
  "admin_count vs = Inr n \<Longrightarrow> n = length (filter (\<lambda>r. role_is_admin r = Inr True) vs)"
proof (induction vs arbitrary: n)
  case Nil
  then show ?case by simp
next
  case (Cons v vs)
  then show ?case
    by (auto split: sum.splits if_splits)
qed

lemma dict_del_split:
  "map_of d k = Some r \<Longrightarrow> \<exists>xs ys. d = xs @ (k, r) # ys \<and> dict_del d k = xs @ ys"
proof (induction d)
  case Nil
  then show ?case by simp
next
  case (Cons p ps)
  show ?case
  proof (cases "fst p = k")
    case True
    with Cons.prems have "p = (k, r)" by (cases p) simp
    with True show ?thesis by (intro exI [of _ "[]"] exI [of _ ps]) simp
  next
    case False
    with Cons obtain xs ys where "ps = xs @ (k, r) # ys" and "dict_del ps k = xs @ ys"
      by (cases p) auto
    with False show ?thesis
      by (intro exI [of _ "p # xs"] exI [of _ ys]) simp
  qed
qed

lemma delete_user_keeps_admin:
  assumes "has_admin (records st)"
  shows "has_admin (records (snd (delete_user L u st)))"
proof (cases "fst (delete_user L u st)")
  case (Some e)
  then have "snd (delete_user L u st) = st"
    by (auto simp: delete_user_def Let_def split: if_splits sum.splits)
  with assms show ?thesis by simp
next
  case None
  define rcd where "rcd = records_get (records st) (KStr u)"
  from None have nn: "rcd \<noteq> JNull"
    and r: "records (snd (delete_user L u st)) = dict_del (records st) (KStr u)"
    by (auto simp: rcd_def delete_user_def remove_record_def Let_def records_persist
        split: if_splits sum.splits)
  from nn have "map_of (records st) (KStr u) = Some rcd"
    by (auto simp: rcd_def records_get_def split: option.splits)
  from dict_del_split [OF this] obtain xs ys
    where d: "records st = xs @ (KStr u, rcd) # ys"
      and dd: "dict_del (records st) (KStr u) = xs @ ys"
    by blast
  have r2: "records (snd (delete_user L u st)) = xs @ ys"
    using r dd by simp
  show ?thesis
  proof (cases "role_is_admin rcd = Inr True")
    case False
    with assms d show ?thesis
      by (auto simp: r2 has_admin_def dict_values_def list_ex_iff)
  next
    case True
    with None obtain n where c: "admin_count (dict_values (records st)) = Inr n" and n: "1 < n"
      by (auto simp: rcd_def [symmetric] delete_user_def Let_def split: if_splits sum.splits)
    from admin_count_filter [OF c] n True
    have "0 < length (filter (\<lambda>r. role_is_admin r = Inr True) (map snd (xs @ ys)))"
      by (simp add: d dict_values_def)
    then obtain a where "a \<in> set (map snd (xs @ ys))" and "role_is_admin a = Inr True"
      by (metis (mono_tags, lifting) filter_empty_conv length_greater_0_conv)
    then show ?thesis
      by (auto simp: r2 has_admin_def dict_values_def list_ex_iff)
  qed
qed

lemma no_upsert_keeps_admin:
  assumes "\<forall>op \<in> set ops. \<forall>a b c d e. op \<noteq> UpsertUser a b c d e"
    and "has_admin (records st)"
  shows "has_admin (records (run_ops L ops st))"
  using assms unfolding run_ops_def
proof (induction ops arbitrary: st)
  case Nil
  then show ?case by simp
next
  case (Cons op ops)
  have "has_admin (records (apply_op L st op))"
  proof (cases op)
    case (Authenticate a b)
    with Cons.prems show ?thesis by simp
  next
    case (UpsertUser a b c d e)
    with Cons.prems show ?thesis by auto
  next
    case (DeleteUser a)
    with Cons.prems show ?thesis by (simp add: delete_user_keeps_admin)
  qed
  with Cons show ?case by simp
qed

subsection \<open>Entries without a username\<close>

lemma set_dict_set: "set (dict_set d k v) \<subseteq> insert (k, v) (set d)"
  by (induction d) auto

lemma set_dict_del: "set (dict_del d k) \<subseteq> set d"
  by (induction d) auto

lemma py_key_truthy: "py_truthy v \<Longrightarrow> py_key v = Some k \<Longrightarrow> k \<noteq> KStr []"
  by (cases v) auto

lemma named_records_set:
  assumes "named_records d" and "k \<noteq> KStr []" and "\<not> username_missing_or_empty v"
  shows "named_records (dict_set d k v)"
  using assms set_dict_set [of d k v] by (fastforce simp: named_records_def)

lemma named_records_del: "named_records d \<Longrightarrow> named_records (dict_del d k)"
  using set_dict_del [of d k] by (fastforce simp: named_records_def)

lemma load_entries_named:
  "load_entries entries users = Inr recs \<Longrightarrow> named_records users \<Longrightarrow> named_records recs"
proof (induction entries arbitrary: users)
  case Nil
  then show ?case by simp
next
  case (Cons entry rest)
  show ?case
  proof (cases "py_get entry ''username'' JNull")
    case (Inl e)
    with Cons.prems show ?thesis by simp
  next
    case (Inr username)
    show ?thesis
    proof (cases "py_truthy username")
      case False
      with Inr Cons show ?thesis by simp
    next
      case True
      with Inr Cons.prems obtain k where k: "py_key username = Some k"
        and l: "load_entries rest (dict_set users k entry) = Inr recs"
        by (auto split: option.splits)
      have "\<not> username_missing_or_empty entry"
        using Inr True by (simp add: username_missing_or_empty_def)
      then have "named_records (dict_set users k entry)"
        using Cons.prems(2) py_key_truthy [OF True k] by (simp add: named_records_set)
      with l Cons.IH show ?thesis by blast
    qed
  qed
qed

lemma named_records_values:
  "named_records recs \<Longrightarrow> username_missing_or_empty e \<Longrightarrow> e \<notin> set (dict_values recs)"
  by (auto simp: named_records_def dict_values_def)

lemma named_records_get:
  assumes "named_records recs" and "username_missing_or_empty e"
  shows "records_get recs k \<noteq> e"
proof (cases "map_of recs k")
  case None
  then have "records_get recs k = JNull" by (simp add: records_get_def)
  moreover have "e \<noteq> JNull"
    using assms(2) by (auto simp: username_missing_or_empty_def)
  ultimately show ?thesis by simp
next
  case (Some r)
  then have "(k, r) \<in> set recs" by (rule map_of_SomeD)
  then have "\<not> username_missing_or_empty r"
    using assms(1) by (auto simp: named_records_def)
  with Some assms(2) show ?thesis by (auto simp: records_get_def)
qed

lemma named_records_no_empty_key: "named_records recs \<Longrightarrow> map_of recs (KStr []) = None"
proof (rule ccontr)
  assume n: "named_records recs" and "map_of recs (KStr []) \<noteq> None"
  then obtain r where "map_of recs (KStr []) = Some r" by auto
  then have "(KStr [], r) \<in> set recs" by (rule map_of_SomeD)
  with n show False by (auto simp: named_records_def)
qed

lemma upsert_user_success:
  assumes "upsert_user L username name role password full_access st = (None, st1)"
  shows "\<exists>nm uid sl h. py_strip username \<noteq> []
           \<and> records st1 = dict_set (records st) (KStr (py_strip username))
                 (JObject [(''username'', JString (py_strip username)),
                           (''name'', JString nm),
                           (''role'', JString role),
                           (''user_id'', uid),
                           (''salt'', JString sl),
                           (''password_hash'', h),
                           (''full_access'', JBool full_access)])
           \<and> user_store st1 = save_users L (dict_values (records st1))
                 ((user_store st)\<lparr>entropy :=
                    upsert_entropy L (records st) username password (entropy (user_store st))\<rparr>)"
  using assms
  by (auto simp: upsert_user_def upsert_entropy_def Let_def persist_def with_entropy_def
      split: if_splits prod.splits sum.splits intro!: exI)

text \<open>What \<open>save_users\<close> wrote is what \<open>list_users\<close> returns next.\<close>

lemma list_users_after_save:
  assumes "cipher_roundtrip L (skey st) (entropy st) (payload_bytes L (users_document vs))"
    and "codec_laws L (skey st) (entropy st) (users_document vs)"
  shows "list_users L (save_users L vs st) = (Inr vs, save_users L vs st)"
  using read_after_write [OF assms, of "JObject [(''users'', JArray [])]"]
  by (simp add: list_users_def save_users_def users_document_def)

lemma delete_user_success:
  assumes "delete_user L u st = (None, st1)"
  shows "records st1 = dict_del (records st) (KStr u)
         \<and> user_store st1 = save_users L (dict_values (records st1)) (user_store st)"
  using assms
  by (auto simp: delete_user_def remove_record_def Let_def persist_def split: if_splits sum.splits)

lemma load_users_entries:
  "list_users L s = (Inr entries, s1) \<Longrightarrow> load_users L s = (load_entries entries [], s1)"
  by (simp add: load_users_def)

text \<open>The mapping of a constructed service is the result of a load from its store.\<close>

lemma auth_init_loaded:
  "auth_init L s = Inr st \<Longrightarrow> \<exists>s0. load_users L s0 = (Inr (records st), user_store st)"
  by (auto simp: auth_init_def split: prod.splits sum.splits if_splits)

text \<open>
  Claim C10. Let \<open>_load_users\<close> succeed on what the User Store lists, and let \<open>e\<close> be a
  listed entry whose \<open>username\<close> is missing or empty. Then \<open>e\<close> is not a value of the
  in-memory mapping; no username is mapped to it, and the empty username authenticates
  nobody, so \<open>e\<close> can never authenticate. After the next successful \<open>upsert_user\<close> or
  \<open>delete_user\<close> the User Store is what \<open>save_users\<close> writes for the values of the new
  mapping, none of which is \<open>e\<close>; and, the cipher and the codecs undoing on read what
  that write produced, \<open>list_users\<close> then returns exactly these values: \<open>e\<close> is no
  longer in the persisted store.
\<close>

theorem nameless_entries_dropped:
  assumes "list_users L s = (Inr entries, s1)" and "load_users L s = (Inr recs, s2)"
    and "e \<in> set entries" and "username_missing_or_empty e"
  shows "s2 = s1
         \<and> e \<notin> set (dict_values recs)
         \<and> (\<forall>u. records_get recs (KStr u) \<noteq> e)
         \<and> (\<forall>p. authenticate L [] p \<lparr>records = recs, user_store = s1\<rparr> = Inr None)
         \<and> (\<forall>username name role password full_access st1.
               upsert_user L username name role password full_access
                 \<lparr>records = recs, user_store = s1\<rparr> = (None, st1)
               \<longrightarrow> e \<notin> set (dict_values (records st1))
                   \<and> user_store st1
                       = save_users L (dict_values (records st1))
                           (s1\<lparr>entropy := upsert_entropy L recs username password (entropy s1)\<rparr>)
                   \<and> (cipher_roundtrip L (skey s1)
                          (upsert_entropy L recs username password (entropy s1))
                          (payload_bytes L (users_document (dict_values (records st1))))
                        \<and> codec_laws L (skey s1)
                            (upsert_entropy L recs username password (entropy s1))
                            (users_document (dict_values (records st1)))
                       \<longrightarrow> list_users L (user_store st1)
                             = (Inr (dict_values (records st1)), user_store st1)))
         \<and> (\<forall>u st1.
               delete_user L u \<lparr>records = recs, user_store = s1\<rparr> = (None, st1)
               \<longrightarrow> e \<notin> set (dict_values (records st1))
                   \<and> user_store st1 = save_users L (dict_values (records st1)) s1
                   \<and> (cipher_roundtrip L (skey s1) (entropy s1)
                          (payload_bytes L (users_document (dict_values (records st1))))
                        \<and> codec_laws L (skey s1) (entropy s1)
                            (users_document (dict_values (records st1)))
                       \<longrightarrow> list_users L (user_store st1)
                             = (Inr (dict_values (records st1)), user_store st1)))"
proof -
  have l: "load_entries entries [] = Inr recs" and s: "s2 = s1"
    using load_users_entries [OF assms(1)] assms(2) by simp_all
  have n: "named_records recs"
    using load_entries_named [OF l] by (simp add: named_records_def)
  have a: "authenticate L [] p \<lparr>records = recs, user_store = s1\<rparr> = Inr None" for p
    using named_records_no_empty_key [OF n]
    by (simp add: authenticate_def records_get_def)
  have up: "e \<notin> set (dict_values (records st1))
            \<and> user_store st1
                = save_users L (dict_values (records st1))
                    (s1\<lparr>entropy := upsert_entropy L recs username password (entropy s1)\<rparr>)
            \<and> (cipher_roundtrip L (skey s1)
                   (upsert_entropy L recs username password (entropy s1))
                   (payload_bytes L (users_document (dict_values (records st1))))
                 \<and> codec_laws L (skey s1)
                     (upsert_entropy L recs username password (entropy s1))
                     (users_document (dict_values (records st1)))
                \<longrightarrow> list_users L (user_store st1)
                      = (Inr (dict_values (records st1)), user_store st1))"
    if "upsert_user L username name role password full_access
          \<lparr>records = recs, user_store = s1\<rparr> = (None, st1)"
    for username name role password full_access st1
  proof -
    let ?E = "upsert_entropy L recs username password (entropy s1)"
    from upsert_user_success [OF that] obtain nm uid sl h
      where ne: "py_strip username \<noteq> []"
        and r: "records st1 = dict_set recs (KStr (py_strip username))
                 (JObject [(''username'', JString (py_strip username)),
                           (''name'', JString nm),
                           (''role'', JString role),
                           (''user_id'', uid),
                           (''salt'', JString sl),
                           (''password_hash'', h),
                           (''full_access'', JBool full_access)])"
        and u: "user_store st1 = save_users L (dict_values (records st1)) (s1\<lparr>entropy := ?E\<rparr>)"
      by auto
    have "\<not> username_missing_or_empty
              (JObject [(''username'', JString (py_strip username)),
                        (''name'', JString nm),
                        (''role'', JString role),
                        (''user_id'', uid),
                        (''salt'', JString sl),
                        (''password_hash'', h),
                        (''full_access'', JBool full_access)])"
      using ne by (simp add: username_missing_or_empty_def)
    then have "named_records (records st1)"
      using n ne r by (simp add: named_records_set)
    then have m: "e \<notin> set (dict_values (records st1))"
      using named_records_values [OF _ assms(4)] by blast
    have rb: "list_users L (user_store st1) = (Inr (dict_values (records st1)), user_store st1)"
      if "cipher_roundtrip L (skey s1) ?E
            (payload_bytes L (users_document (dict_values (records st1))))"
        and "codec_laws L (skey s1) ?E (users_document (dict_values (records st1)))"
      using list_users_after_save [of L "s1\<lparr>entropy := ?E\<rparr>" "dict_values (records st1)"] that u
      by simp
    show ?thesis
      using m u rb by blast
  qed
  have del: "e \<notin> set (dict_values (records st1))
             \<and> user_store st1 = save_users L (dict_values (records st1)) s1
             \<and> (cipher_roundtrip L (skey s1) (entropy s1)
                    (payload_bytes L (users_document (dict_values (records st1))))
                  \<and> codec_laws L (skey s1) (entropy s1)
                      (users_document (dict_values (records st1)))
                 \<longrightarrow> list_users L (user_store st1)
                       = (Inr (dict_values (records st1)), user_store st1))"
    if "delete_user L u \<lparr>records = recs, user_store = s1\<rparr> = (None, st1)" for u st1
  proof -
    from delete_user_success [OF that]
    have r: "records st1 = dict_del recs (KStr u)"
      and u: "user_store st1 = save_users L (dict_values (records st1)) s1"
      by simp_all
    have "named_records (records st1)"
      using n r by (simp add: named_records_del)
    then have m: "e \<notin> set (dict_values (records st1))"
      using named_records_values [OF _ assms(4)] by blast
    have rb: "list_users L (user_store st1) = (Inr (dict_values (records st1)), user_store st1)"
      if "cipher_roundtrip L (skey s1) (entropy s1)
            (payload_bytes L (users_document (dict_values (records st1))))"
        and "codec_laws L (skey s1) (entropy s1) (users_document (dict_values (records st1)))"
      using list_users_after_save [OF that] u by simp
    show ?thesis
      using m u rb by blast
  qed
  show ?thesis
    using s named_records_values [OF n assms(4)] named_records_get [OF n assms(4)] a up del
    by blast
qed

lemma sample_decode_users: "sample_utf8_decode users_text = Some users_text"
  by (simp add: users_text_def sample_utf8_decode.simps)

lemma sample_loads_users: "sample_json_loads users_text = Inr users_doc"
  by (simp add: users_text_def users_doc_def nameless_entry_def bob_entry_def
      sample_json_loads_def parse_int_def is_digit_def)

lemma users_text_not_blank: "py_strip users_text \<noteq> []"
  by (simp add: users_text_def py_strip_def py_isspace_def)

lemma sample_list_users:
  "list_users sample_lib users_store
     = (Inr [nameless_entry, bob_entry], store_write sample_lib users_doc users_store)"
proof -
  have f: "sfile users_store = Some users_text"
    by (simp add: users_store_def)
  have d: "utf8_decode sample_lib users_text = Some users_text"
    by (simp add: sample_lib_sel sample_decode_users)
  have j: "json_loads sample_lib users_text = Inr users_doc"
    by (simp add: sample_lib_sel sample_loads_users)
  have r: "read_encrypted sample_lib (skey users_store) users_text = None"
    by (simp add: read_encrypted_def j users_doc_def)
  show ?thesis
    using read_fallback(2) [OF f d r users_text_not_blank j]
    by (simp add: list_users_def users_doc_def)
qed

lemma bob_not_admin: "role_is_admin bob_entry = Inr False"
  by (simp add: role_is_admin_def bob_entry_def py_lower_def py_lower_char_def
      char_of_def bit_iff_odd)


subsection \<open>The empty list of users, written and read step by step\<close>

lemma sample_entropy_shift: "snd (os_urandom 16 sample_entropy) = sample_entropy"
  by (rule ext) (simp add: os_urandom_def sample_entropy_def)

lemma sample_store_write_entropy:
  "entropy (store_write sample_lib x st) = snd (os_urandom 16 (entropy st))"
  by (simp add: store_write_def sample_lib_sel sample_encrypt_def case_prod_beta Let_def)

lemma no_users_dumps: "sample_json_dumps no_users_doc = no_users_payload"
  by (simp add: no_users_doc_def no_users_payload_def dumps_string_def sample_json_dumps.simps)

lemma no_users_encode: "sample_utf8_encode no_users_payload = no_users_payload"
  by (simp add: no_users_payload_def sample_utf8_encode.simps)

lemma no_users_decode: "sample_utf8_decode no_users_payload = Some no_users_payload"
  by (simp add: no_users_payload_def sample_utf8_decode.simps)

lemma no_users_loads: "sample_json_loads no_users_payload = Inr no_users_doc"
  by (simp add: no_users_payload_def no_users_doc_def sample_json_loads_def parse_int_def
      is_digit_def)

lemma no_users_encrypt:
  "fst (sample_encrypt no_users_payload sample_key sample_entropy)
     = (sample_iv, no_users_ciphertext)"
proof -
  have "map (\<lambda>(i, c). char_of (of_char c + key_byte sample_key i + key_byte sample_iv i))
          (zip [0..<length no_users_payload] no_users_payload) = no_users_ciphertext"
    by (simp add: no_users_payload_def sample_key_def sample_iv_def no_users_ciphertext_def
        key_byte_def upt_rec char_of_def bit_iff_odd)
  then show ?thesis
    using sample_draw_iv by (simp add: sample_encrypt_def case_prod_beta)
qed

lemma no_users_decrypt:
  "sample_decrypt sample_iv no_users_ciphertext sample_key = Some no_users_payload"
  by (simp add: sample_decrypt_def no_users_payload_def sample_key_def sample_iv_def
      no_users_ciphertext_def key_byte_def upt_rec char_of_def bit_iff_odd)

lemma no_users_b64encode: "sample_b64encode no_users_ciphertext = ''V8Q6SQJKNgTeKRpc''"
  by (simp add: no_users_ciphertext_def b64_char_def b64_alphabet_def sample_b64encode.simps)

lemma no_users_b64decode: "sample_b64decode ''V8Q6SQJKNgTeKRpc'' = Some no_users_ciphertext"
  by (simp add: no_users_ciphertext_def b64_alphabet_def char_of_def bit_iff_odd
      sample_b64decode.simps)

lemma no_users_dumps_envelope: "sample_json_dumps no_users_envelope = no_users_envelope_text"
  by (simp add: no_users_envelope_def no_users_envelope_text_def dumps_string_def
      sample_json_dumps.simps)

lemma no_users_encode_envelope:
  "sample_utf8_encode no_users_envelope_text = no_users_envelope_text"
  by (simp add: no_users_envelope_text_def sample_utf8_encode.simps)

lemma no_users_decode_envelope:
  "sample_utf8_decode no_users_envelope_text = Some no_users_envelope_text"
  by (simp add: no_users_envelope_text_def sample_utf8_decode.simps)

lemma no_users_loads_envelope: "sample_json_loads no_users_envelope_text = Inr no_users_envelope"
  by (simp add: no_users_envelope_text_def no_users_envelope_def sample_json_loads_def
      parse_int_def is_digit_def)

lemma no_users_envelope_not_blank: "py_strip no_users_envelope_text \<noteq> []"
  by (simp add: no_users_envelope_text_def py_strip_def py_isspace_def)

lemma no_users_payload_bytes: "payload_bytes sample_lib no_users_doc = no_users_payload"
  by (simp add: payload_bytes_def sample_lib_sel no_users_dumps no_users_encode)

lemma no_users_parts:
  "encrypted_parts sample_lib sample_key sample_entropy no_users_doc
     = (sample_iv, no_users_ciphertext)"
  by (simp add: encrypted_parts_def no_users_payload_bytes sample_lib_sel no_users_encrypt)

lemma no_users_envelope_of:
  "envelope_of sample_lib sample_key sample_entropy no_users_doc = no_users_envelope"
  by (simp add: envelope_of_def no_users_parts sample_lib_sel sample_b64encode_iv
      no_users_b64encode no_users_envelope_def)

lemma no_users_envelope_text_of:
  "envelope_text sample_lib sample_key sample_entropy no_users_doc = no_users_envelope_text"
  by (simp add: envelope_text_def no_users_envelope_of sample_lib_sel no_users_dumps_envelope)

lemma no_users_cipher_roundtrip:
  "cipher_roundtrip sample_lib sample_key sample_entropy (payload_bytes sample_lib no_users_doc)"
  by (simp add: cipher_roundtrip_def no_users_payload_bytes sample_lib_sel no_users_encrypt
      no_users_decrypt)

lemma no_users_codec_laws: "codec_laws sample_lib sample_key sample_entropy no_users_doc"
  by (simp add: codec_laws_def no_users_envelope_text_of no_users_envelope_of no_users_parts
      no_users_payload_bytes sample_lib_sel no_users_encode_envelope no_users_decode_envelope
      no_users_envelope_not_blank no_users_loads_envelope sample_b64encode_iv
      no_users_b64encode sample_b64decode_iv no_users_b64decode no_users_decode
      no_users_dumps no_users_loads)

lemma loaded_store_key_entropy:
  "skey (store_write sample_lib users_doc users_store) = sample_key"
  "entropy (store_write sample_lib users_doc users_store) = sample_entropy"
  by (simp_all add: store_write_key sample_store_write_entropy users_store_def sample_store_def
      sample_entropy_shift)

theorem nameless_entries_dropped_witness:
  "list_users sample_lib users_store
     = (Inr [nameless_entry, bob_entry], store_write sample_lib users_doc users_store)
   \<and> load_users sample_lib users_store
       = (Inr [(KStr ''bob'', bob_entry)], store_write sample_lib users_doc users_store)
   \<and> nameless_entry \<in> set [nameless_entry, bob_entry]
   \<and> username_missing_or_empty nameless_entry
   \<and> nameless_entry \<notin> set (dict_values [(KStr ''bob'', bob_entry)])
   \<and> authenticate sample_lib [] ''admin123'' loaded_auth = Inr None
   \<and> fst (delete_user sample_lib ''bob'' loaded_auth) = None
   \<and> records (snd (delete_user sample_lib ''bob'' loaded_auth)) = []
   \<and> cipher_roundtrip sample_lib (skey (user_store loaded_auth)) (entropy (user_store loaded_auth))
       (payload_bytes sample_lib (users_document []))
   \<and> codec_laws sample_lib (skey (user_store loaded_auth)) (entropy (user_store loaded_auth))
       (users_document [])
   \<and> nameless_entry \<notin> set (dict_values (records (snd (delete_user sample_lib ''bob'' loaded_auth))))
   \<and> list_users sample_lib (user_store (snd (delete_user sample_lib ''bob'' loaded_auth)))
       = (Inr [], user_store (snd (delete_user sample_lib ''bob'' loaded_auth)))"
proof -
  let ?s1 = "store_write sample_lib users_doc users_store"
  let ?st1 = "snd (delete_user sample_lib ''bob'' loaded_auth)"
  have h2: "load_users sample_lib users_store = (Inr [(KStr ''bob'', bob_entry)], ?s1)"
    by (simp add: load_users_def sample_list_users nameless_entry_def bob_entry_def)
  have h3: "nameless_entry \<in> set [nameless_entry, bob_entry]"
    by simp
  have h4: "username_missing_or_empty nameless_entry"
    by (simp add: username_missing_or_empty_def nameless_entry_def)
  have f: "fst (delete_user sample_lib ''bob'' loaded_auth) = None"
    by (simp add: delete_user_def loaded_auth_def records_get_def bob_not_admin)
       (simp add: bob_entry_def)
  then have d: "delete_user sample_lib ''bob'' \<lparr>records = [(KStr ''bob'', bob_entry)],
                   user_store = ?s1\<rparr> = (None, ?st1)"
    by (simp add: loaded_auth_def prod_eq_iff)
  have r: "records ?st1 = []"
    using delete_user_success [OF d] by simp
  have c: "cipher_roundtrip sample_lib (skey ?s1) (entropy ?s1)
             (payload_bytes sample_lib (users_document (dict_values (records ?st1))))"
    and l: "codec_laws sample_lib (skey ?s1) (entropy ?s1)
              (users_document (dict_values (records ?st1)))"
    using no_users_cipher_roundtrip no_users_codec_laws
    by (simp_all add: r dict_values_def users_document_def loaded_store_key_entropy
        no_users_doc_def [symmetric])
  have u: "user_store loaded_auth = ?s1"
    by (simp add: loaded_auth_def)
  from nameless_entries_dropped [OF sample_list_users h2 h3 h4] d c l
  have rb: "nameless_entry \<notin> set (dict_values (records ?st1))
              \<and> list_users sample_lib (user_store ?st1)
                  = (Inr (dict_values (records ?st1)), user_store ?st1)"
    by blast
  have a: "authenticate sample_lib [] ''admin123'' loaded_auth = Inr None"
    using nameless_entries_dropped [OF sample_list_users h2 h3 h4]
    by (simp add: loaded_auth_def)
  have v: "nameless_entry \<notin> set (dict_values [(KStr ''bob'', bob_entry)])"
    using nameless_entries_dropped [OF sample_list_users h2 h3 h4] by blast
  show ?thesis
    using sample_list_users h2 h3 h4 f a rb c l v
    by (simp add: r u dict_values_def)
qed

section \<open>The Evidence Store under concurrent callers\<close>

text \<open>
  Claim C3 says that \<open>list_images\<close> acquires the lock of the store while it reads. It does
  not: its steps hold no \<open>Acquire\<close>, and its read runs while another caller is inside
  \<open>add_image\<close> with the lock held. Here caller 0 enters \<open>add_image\<close> and takes the lock,
  then caller 1 runs the whole of \<open>list_images\<close>: caller 1 is finished, and caller 0 still
  holds the lock. A caller of \<open>clear\<close>, which does take the lock, has to wait at that point.
\<close>

theorem list_images_reads_without_lock:
  "Acquire \<notin> set list_images
   \<and> map_option lock (run [0, 1] adding_and_listing) = Some (Some 0)
   \<and> map_option (\<lambda>ev. todo (callers ev ! 1)) (run [0, 1] adding_and_listing) = Some []
   \<and> run [0, 1] adding_and_clearing = None"
  by (simp add: list_images_def adding_and_listing_def adding_and_clearing_def step_def
      start_def add_image_def clear_def)

subsection \<open>No lost update among concurrent add\_image calls\<close>

lemma written_sum_step:
  assumes "(j::nat) < n" and "\<And>i. i < n \<Longrightarrow> i \<noteq> j \<Longrightarrow> g i = f i"
  shows "(\<Sum>i<n. g i) = g j + (\<Sum>i\<in>{..<n} - {j}. f i)"
proof -
  have "(\<Sum>i<n. g i) = g j + (\<Sum>i\<in>{..<n} - {j}. g i)"
    using assms(1) by (intro sum.remove) auto
  moreover have "(\<Sum>i\<in>{..<n} - {j}. g i) = (\<Sum>i\<in>{..<n} - {j}. f i)"
    using assms(2) by (intro sum.cong) auto
  ultimately show ?thesis by simp
qed

lemma written_sum_split:
  assumes "(j::nat) < n"
  shows "(\<Sum>i<n. f i) = f j + (\<Sum>i\<in>{..<n} - {j}. f i)"
  using assms by (intro sum.remove) auto

lemma adders_step:
  assumes inv: "adders ps d0 ev" and st: "step j ev = Some ev1"
  shows "adders ps d0 ev1"
proof -
  from st have j: "j < length (callers ev)"
    by (auto simp: step_def split: if_splits)
  from inv have len: "length (callers ev) = length ps"
    and each: "\<And>i. i < length ps \<Longrightarrow> adder_at ev i (ps ! i) (callers ev ! i)"
    and docs: "mset (doc ev) = mset d0 + (\<Sum>i<length ps. written_by (callers ev ! i) (ps ! i))"
    by (simp_all add: adders_def)
  from j len have jp: "j < length ps" by simp
  let ?c = "callers ev ! j" and ?p = "ps ! j"
  have others: "lock ev = Some j \<Longrightarrow> i < length ps \<Longrightarrow> i \<noteq> j \<Longrightarrow>
      (todo (callers ev ! i) = add_image (ps ! i) \<or> todo (callers ev ! i) = [])" for i
    using each [of i] by (auto simp: adder_at_def)
  have free: "lock ev = None \<Longrightarrow> i < length ps \<Longrightarrow>
      (todo (callers ev ! i) = add_image (ps ! i) \<or> todo (callers ev ! i) = [])" for i
    using each [of i] by (auto simp: adder_at_def)
  from each [OF jp] consider
      (s0) "todo ?c = add_image ?p" "lock ev \<noteq> Some j"
    | (s1) "todo ?c = [ReadData, AppendData ?p, WriteData, Release]" "lock ev = Some j"
    | (s2) "todo ?c = [AppendData ?p, WriteData, Release]" "lock ev = Some j" "data ?c = doc ev"
    | (s3) "todo ?c = [WriteData, Release]" "lock ev = Some j" "data ?c = doc ev @ [?p]"
    | (s4) "todo ?c = [Release]" "lock ev = Some j"
    | (s5) "todo ?c = []"
    by (auto simp: adder_at_def)
  then show ?thesis
  proof cases
    case s0
    with st j have l: "lock ev = None"
      and e: "ev1 = ev\<lparr>lock := Some j, callers := (callers ev)[j := ?c\<lparr>todo := [ReadData, AppendData ?p, WriteData, Release]\<rparr>]\<rparr>"
      by (auto simp: step_def add_image_def Let_def split: if_splits)
    have "adder_at ev1 i (ps ! i) (callers ev1 ! i)" if "i < length ps" for i
      using that free [OF l that] j len
      by (cases "i = j") (auto simp: e adder_at_def add_image_def)
    moreover have "(\<Sum>i<length ps. written_by (callers ev1 ! i) (ps ! i))
                     = (\<Sum>i<length ps. written_by (callers ev ! i) (ps ! i))"
      using j len s0 by (intro sum.cong) (auto simp: e written_by_def add_image_def nth_list_update)
    ultimately show ?thesis
      using len docs by (simp add: adders_def e)
  next
    case s1
    with st j have e: "ev1 = ev\<lparr>callers := (callers ev)[j := ?c\<lparr>todo := [AppendData ?p, WriteData, Release], data := doc ev\<rparr>]\<rparr>"
      by (auto simp: step_def Let_def split: if_splits)
    have "adder_at ev1 i (ps ! i) (callers ev1 ! i)" if "i < length ps" for i
      using that others [OF s1(2) that] j len s1
      by (cases "i = j") (auto simp: e adder_at_def add_image_def)
    moreover have "(\<Sum>i<length ps. written_by (callers ev1 ! i) (ps ! i))
                     = (\<Sum>i<length ps. written_by (callers ev ! i) (ps ! i))"
      using j len s1 by (intro sum.cong) (auto simp: e written_by_def nth_list_update)
    ultimately show ?thesis
      using len docs by (simp add: adders_def e)
  next
    case s2
    with st j have e: "ev1 = ev\<lparr>callers := (callers ev)[j := ?c\<lparr>todo := [WriteData, Release], data := doc ev @ [?p]\<rparr>]\<rparr>"
      by (auto simp: step_def Let_def split: if_splits)
    have "adder_at ev1 i (ps ! i) (callers ev1 ! i)" if "i < length ps" for i
      using that others [OF s2(2) that] j len s2
      by (cases "i = j") (auto simp: e adder_at_def add_image_def)
    moreover have "(\<Sum>i<length ps. written_by (callers ev1 ! i) (ps ! i))
                     = (\<Sum>i<length ps. written_by (callers ev ! i) (ps ! i))"
      using j len s2 by (intro sum.cong) (auto simp: e written_by_def nth_list_update)
    ultimately show ?thesis
      using len docs by (simp add: adders_def e)
  next
    case s3
    with st j have e: "ev1 = ev\<lparr>doc := doc ev @ [?p], callers := (callers ev)[j := ?c\<lparr>todo := [Release]\<rparr>]\<rparr>"
      by (auto simp: step_def Let_def split: if_splits)
    have "adder_at ev1 i (ps ! i) (callers ev1 ! i)" if "i < length ps" for i
      using that others [OF s3(2) that] j len s3
      by (cases "i = j") (auto simp: e adder_at_def add_image_def)
    moreover have "(\<Sum>i<length ps. written_by (callers ev1 ! i) (ps ! i))
                     = {#?p#} + (\<Sum>i<length ps. written_by (callers ev ! i) (ps ! i))"
    proof -
      have a: "(\<Sum>i<length ps. written_by (callers ev1 ! i) (ps ! i))
                 = written_by (callers ev1 ! j) ?p
                   + (\<Sum>i\<in>{..<length ps} - {j}. written_by (callers ev ! i) (ps ! i))"
        using jp by (intro written_sum_step) (auto simp: e)
      have b: "(\<Sum>i<length ps. written_by (callers ev ! i) (ps ! i))
                 = written_by ?c ?p
                   + (\<Sum>i\<in>{..<length ps} - {j}. written_by (callers ev ! i) (ps ! i))"
        using jp by (rule written_sum_split)
      have "written_by (callers ev1 ! j) ?p = {#?p#}" and "written_by ?c ?p = {#}"
        using j s3 by (simp_all add: e written_by_def)
      with a b show ?thesis by simp
    qed
    ultimately show ?thesis
      using len docs by (simp add: adders_def e)
  next
    case s4
    with st j have e: "ev1 = ev\<lparr>lock := None, callers := (callers ev)[j := ?c\<lparr>todo := []\<rparr>]\<rparr>"
      by (auto simp: step_def Let_def split: if_splits)
    have "adder_at ev1 i (ps ! i) (callers ev1 ! i)" if "i < length ps" for i
      using that others [OF s4(2) that] j len s4
      by (cases "i = j") (auto simp: e adder_at_def add_image_def)
    moreover have "(\<Sum>i<length ps. written_by (callers ev1 ! i) (ps ! i))
                     = (\<Sum>i<length ps. written_by (callers ev ! i) (ps ! i))"
      using j len s4 by (intro sum.cong) (auto simp: e written_by_def nth_list_update)
    ultimately show ?thesis
      using len docs by (simp add: adders_def e)
  next
    case s5
    with st j show ?thesis
      by (simp add: step_def Let_def)
  qed
qed

lemma adders_run: "run schedule ev = Some ev1 \<Longrightarrow> adders ps d0 ev \<Longrightarrow> adders ps d0 ev1"
proof (induction schedule arbitrary: ev)
  case Nil
  then show ?case by simp
next
  case (Cons j schedule)
  then show ?case
    by (auto split: option.splits dest: adders_step)
qed

lemma adders_start:
  "adders ps d0 \<lparr>lock = None, doc = d0, callers = map (\<lambda>p. start (add_image p)) ps\<rparr>"
  by (simp add: adders_def adder_at_def start_def written_by_def add_image_def)

lemma sum_singletons: "(\<Sum>i<length ps. {#ps ! i#}) = mset ps"
proof (induction ps rule: rev_induct)
  case Nil
  then show ?case by simp
next
  case (snoc p ps)
  have "(\<Sum>i<length ps. {#(ps @ [p]) ! i#}) = (\<Sum>i<length ps. {#ps ! i#})"
    by (intro sum.cong) (auto simp: nth_append)
  with snoc show ?case by simp
qed

text \<open>
  When \<open>N\<close> callers each run \<open>add_image\<close> once, under any schedule, and all of them have
  finished, the stored list holds what it held before and each of the \<open>N\<close> records once.
\<close>

lemma add_image_no_lost_update:
  assumes "run schedule \<lparr>lock = None, doc = d0, callers = map (\<lambda>p. start (add_image p)) ps\<rparr>
             = Some ev"
    and "finished ev"
  shows "mset (doc ev) = mset d0 + mset ps" and "length (doc ev) = length d0 + length ps"
proof -
  have a: "adders ps d0 ev"
    using adders_run [OF assms(1) adders_start] .
  then have len: "length (callers ev) = length ps"
    and docs: "mset (doc ev) = mset d0 + (\<Sum>i<length ps. written_by (callers ev ! i) (ps ! i))"
    by (simp_all add: adders_def)
  have "written_by (callers ev ! i) (ps ! i) = {#ps ! i#}" if "i < length ps" for i
    using assms(2) that len by (simp add: finished_def list_all_length written_by_def)
  then have "(\<Sum>i<length ps. written_by (callers ev ! i) (ps ! i)) = (\<Sum>i<length ps. {#ps ! i#})"
    by (intro sum.cong) auto
  with docs show m: "mset (doc ev) = mset d0 + mset ps"
    by (simp add: sum_singletons)
  from m have "size (mset (doc ev)) = size (mset d0 + mset ps)" by simp
  then show "length (doc ev) = length d0 + length ps" by simp
qed

end
